theory Spec2Isabelle
  imports Main "HOL-Library.Sublist"
begin

section \<open>Byte strings and the functions of Go's \<open>strings\<close> package\<close>

text \<open>
  A Go \<open>string\<close> and a \<open>[]byte\<close> are both sequences of bytes; \<open>[]byte(s)\<close> and
  \<open>string(b)\<close> keep the bytes. Both are modelled as \<^typ>\<open>string\<close>, a list of 8-bit
  characters. Non-ASCII bytes are written \<open>CHR 0x..\<close>.
\<close>

definition HasPrefix :: "string \<Rightarrow> string \<Rightarrow> bool" where
  "HasPrefix s p = prefix p s"

definition HasSuffix :: "string \<Rightarrow> string \<Rightarrow> bool" where
  "HasSuffix s p = suffix p s"

primrec Contains :: "string \<Rightarrow> string \<Rightarrow> bool" where
  "Contains [] sub = (sub = [])"
| "Contains (c # cs) sub = (prefix sub (c # cs) \<or> Contains cs sub)"

text \<open>\<open>strings.ContainsAny(s, chars)\<close> for a set of ASCII characters: some byte of \<open>s\<close> is in \<open>chars\<close>.\<close>

definition ContainsAny :: "string \<Rightarrow> string \<Rightarrow> bool" where
  "ContainsAny s chars = list_ex (\<lambda>c. c \<in> set chars) s"

text \<open>\<open>strings.Count(s, sep)\<close> for a one-byte separator.\<close>

definition CountByte :: "string \<Rightarrow> char \<Rightarrow> nat" where
  "CountByte s c = length (filter (\<lambda>x. x = c) s)"

text \<open>\<open>strings.Split(s, "\n")\<close>: the pieces between line feeds; the empty string gives one empty piece.\<close>

fun SplitLines :: "string \<Rightarrow> string list" where
  "SplitLines [] = [[]]"
| "SplitLines (c # cs) =
     (if c = CHR 0x0A then [] # SplitLines cs
      else (case SplitLines cs of [] \<Rightarrow> [[c]] | l # ls \<Rightarrow> (c # l) # ls))"

text \<open>
  \<open>strings.TrimSpace\<close> removes leading and trailing runes for which \<open>unicode.IsSpace\<close>
  holds. The list below holds the UTF-8 encodings of exactly those runes: tab, line feed,
  vertical tab, form feed, carriage return, space, U+0085, U+00A0, U+1680, U+2000 to U+200A,
  U+2028, U+2029, U+202F, U+205F and U+3000. A byte that is not part of such an encoding
  (also an invalid one) stops the trimming.
\<close>

definition unicodeSpaces :: "string list" where
  "unicodeSpaces =
    [[CHR 0x09], [CHR 0x0A], [CHR 0x0B], [CHR 0x0C], [CHR 0x0D], [CHR 0x20],
     [CHR 0xC2, CHR 0x85], [CHR 0xC2, CHR 0xA0],
     [CHR 0xE1, CHR 0x9A, CHR 0x80],
     [CHR 0xE2, CHR 0x80, CHR 0x80], [CHR 0xE2, CHR 0x80, CHR 0x81],
     [CHR 0xE2, CHR 0x80, CHR 0x82], [CHR 0xE2, CHR 0x80, CHR 0x83],
     [CHR 0xE2, CHR 0x80, CHR 0x84], [CHR 0xE2, CHR 0x80, CHR 0x85],
     [CHR 0xE2, CHR 0x80, CHR 0x86], [CHR 0xE2, CHR 0x80, CHR 0x87],
     [CHR 0xE2, CHR 0x80, CHR 0x88], [CHR 0xE2, CHR 0x80, CHR 0x89],
     [CHR 0xE2, CHR 0x80, CHR 0x8A],
     [CHR 0xE2, CHR 0x80, CHR 0xA8], [CHR 0xE2, CHR 0x80, CHR 0xA9],
     [CHR 0xE2, CHR 0x80, CHR 0xAF], [CHR 0xE2, CHR 0x81, CHR 0x9F],
     [CHR 0xE3, CHR 0x80, CHR 0x80]]"

text \<open>Width in bytes of the space rune the string starts (ends) with, 0 when it has none.\<close>

definition leadingSpace :: "string \<Rightarrow> nat" where
  "leadingSpace s = (case find (\<lambda>e. prefix e s) unicodeSpaces of None \<Rightarrow> 0 | Some e \<Rightarrow> length e)"

definition trailingSpace :: "string \<Rightarrow> nat" where
  "trailingSpace s = (case find (\<lambda>e. suffix e s) unicodeSpaces of None \<Rightarrow> 0 | Some e \<Rightarrow> length e)"

function TrimLeftSpace :: "string \<Rightarrow> string" where
  "TrimLeftSpace s = (if leadingSpace s = 0 then s else TrimLeftSpace (drop (leadingSpace s) s))"
  by pat_completeness auto
termination
proof (relation "measure length")
  show "wf (measure length)" by simp
next
  fix s :: string
  assume "leadingSpace s \<noteq> 0"
  moreover have "leadingSpace s \<le> length s"
  proof (cases "find (\<lambda>e. prefix e s) unicodeSpaces")
    case None
    then show ?thesis by (simp add: leadingSpace_def)
  next
    case (Some e)
    then have "prefix e s" by (auto simp: find_Some_iff)
    with Some show ?thesis by (simp add: leadingSpace_def prefix_length_le)
  qed
  ultimately show "(drop (leadingSpace s) s, s) \<in> measure length" by simp
qed

function TrimRightSpace :: "string \<Rightarrow> string" where
  "TrimRightSpace s =
     (if trailingSpace s = 0 then s else TrimRightSpace (take (length s - trailingSpace s) s))"
  by pat_completeness auto
termination
proof (relation "measure length")
  show "wf (measure length)" by simp
next
  fix s :: string
  assume "trailingSpace s \<noteq> 0"
  moreover have "trailingSpace s \<le> length s"
  proof (cases "find (\<lambda>e. suffix e s) unicodeSpaces")
    case None
    then show ?thesis by (simp add: trailingSpace_def)
  next
    case (Some e)
    then have "suffix e s" by (auto simp: find_Some_iff)
    with Some show ?thesis by (simp add: trailingSpace_def suffix_length_le)
  qed
  ultimately show "(take (length s - trailingSpace s) s, s) \<in> measure length" by simp
qed

declare TrimLeftSpace.simps [simp del] TrimRightSpace.simps [simp del]

definition TrimSpace :: "string \<Rightarrow> string" where
  "TrimSpace s = TrimRightSpace (TrimLeftSpace s)"

text \<open>
  \<open>strings.ToUpper\<close> and \<open>strings.ToLower\<close> map the bytes \<open>a\<close>..\<open>z\<close> (\<open>A\<close>..\<open>Z\<close>)
  themselves when the string is all ASCII; otherwise they map rune by rune with the Unicode
  case tables, \<open>strings.Map(unicode.ToUpper, s)\<close>, which is a parameter here.
\<close>

definition isASCII :: "string \<Rightarrow> bool" where
  "isASCII s = list_all (\<lambda>c. (of_char c :: nat) < 128) s"

definition upperByte :: "char \<Rightarrow> char" where
  "upperByte c =
     (if (97::nat) \<le> of_char c \<and> (of_char c :: nat) \<le> 122 then char_of (of_char c - (32::nat)) else c)"

definition lowerByte :: "char \<Rightarrow> char" where
  "lowerByte c =
     (if (65::nat) \<le> of_char c \<and> (of_char c :: nat) \<le> 90 then char_of (of_char c + (32::nat)) else c)"

definition ToUpper :: "(string \<Rightarrow> string) \<Rightarrow> string \<Rightarrow> string" where
  "ToUpper mapUpper s = (if isASCII s then map upperByte s else mapUpper s)"

definition ToLower :: "(string \<Rightarrow> string) \<Rightarrow> string \<Rightarrow> string" where
  "ToLower mapLower s = (if isASCII s then map lowerByte s else mapLower s)"

text \<open>\<open>strings.LastIndex(s, sep)\<close> for a one-byte separator: the greatest index holding it, or -1.\<close>

definition LastIndexByte :: "string \<Rightarrow> char \<Rightarrow> int" where
  "LastIndexByte s c =
     (case filter (\<lambda>i. s ! i = c) (rev [0..<length s]) of [] \<Rightarrow> -1 | i # _ \<Rightarrow> int i)"

definition TrimPrefix :: "string \<Rightarrow> string \<Rightarrow> string" where
  "TrimPrefix s p = (if HasPrefix s p then drop (length p) s else s)"

text \<open>The verb \<open>%d\<close> of \<open>fmt.Sprintf\<close> on a non-negative integer.\<close>

function decimal :: "nat \<Rightarrow> string" where
  "decimal n = (if n < 10 then [''0123456789'' ! n] else decimal (n div 10) @ [''0123456789'' ! (n mod 10)])"
  by pat_completeness auto
termination
  by (relation "measure id") auto

declare decimal.simps [simp del]


section \<open>Formats, results and the external collaborators\<close>

text \<open>\<open>type Format string\<close>: a format tag is any string; sixteen of them are named.\<close>

type_synonym Format = string

definition FormatJSON :: Format where "FormatJSON = ''json''"
definition FormatYAML :: Format where "FormatYAML = ''yaml''"
definition FormatXML :: Format where "FormatXML = ''xml''"
definition FormatTOML :: Format where "FormatTOML = ''toml''"
definition FormatCSV :: Format where "FormatCSV = ''csv''"
definition FormatGraphQL :: Format where "FormatGraphQL = ''graphql''"
definition FormatINI :: Format where "FormatINI = ''ini''"
definition FormatHCL :: Format where "FormatHCL = ''hcl''"
definition FormatProtobuf :: Format where "FormatProtobuf = ''protobuf''"
definition FormatMarkdown :: Format where "FormatMarkdown = ''markdown''"
definition FormatJSONL :: Format where "FormatJSONL = ''jsonl''"
definition FormatJupyter :: Format where "FormatJupyter = ''jupyter''"
definition FormatRequirements :: Format where "FormatRequirements = ''requirements''"
definition FormatDockerfile :: Format where "FormatDockerfile = ''dockerfile''"
definition FormatAuto :: Format where "FormatAuto = ''auto''"
definition FormatUnknown :: Format where "FormatUnknown = ''unknown''"

record Result =
  Valid :: bool
  Format :: Format
  Error :: string
  FileName :: string

text \<open>
  The parsers the validators call are not part of the program. Each is a field of the
  record below: a parser returns \<open>None\<close> for a nil error and \<open>Some msg\<close> for an error
  whose \<open>Error()\<close> text is \<open>msg\<close>. \<open>json.Unmarshal\<close> into a \<open>map[string]interface{}\<close>
  returns the key set of the decoded map. \<open>hclsyntax.ParseConfig\<close> returns diagnostics,
  of which the program reads \<open>HasErrors()\<close> and \<open>Error()\<close>. The last two fields are the
  Unicode paths of \<open>strings.ToUpper\<close> and \<open>strings.ToLower\<close>.
\<close>

record Diagnostics =
  HasErrors :: bool
  DiagnosticsError :: string

record collaborators =
  json_Unmarshal :: "string \<Rightarrow> string option"
  json_Unmarshal_map :: "string \<Rightarrow> string + string set"
  yaml_Unmarshal :: "string \<Rightarrow> string option"
  xml_Unmarshal :: "string \<Rightarrow> string option"
  toml_Unmarshal :: "string \<Rightarrow> string option"
  csv_ReadAll :: "string \<Rightarrow> string option"
  graphql_Parse :: "string \<Rightarrow> string option"
  ini_Load :: "string \<Rightarrow> string option"
  hclsyntax_ParseConfig :: "string \<Rightarrow> Diagnostics"
  prototext_Unmarshal :: "string \<Rightarrow> string option"
  goldmark_Convert :: "string \<Rightarrow> string option"
  unicode_MapUpper :: "string \<Rightarrow> string"
  unicode_MapLower :: "string \<Rightarrow> string"

record baseValidator =
  format :: Format

datatype Validator =
    JSONValidator baseValidator
  | YAMLValidator baseValidator
  | XMLValidator baseValidator
  | TOMLValidator baseValidator
  | CSVValidator baseValidator
  | GraphQLValidator baseValidator
  | INIValidator baseValidator
  | HCLValidator baseValidator
  | ProtobufValidator baseValidator
  | MarkdownValidator baseValidator
  | JSONLValidator baseValidator
  | JupyterValidator baseValidator
  | RequirementsValidator baseValidator
  | DockerfileValidator baseValidator

text \<open>
  Calls are effects: every validating function returns, with its result, the calls it made
  in order. A call is either the entry of a validator's \<open>Validate\<close> method or the
  invocation of an external parser on a buffer.
\<close>

datatype call =
    Call_Validate Validator string
  | Call_json_Unmarshal string
  | Call_json_Unmarshal_map string
  | Call_yaml_Unmarshal string
  | Call_xml_Unmarshal string
  | Call_toml_Unmarshal string
  | Call_csv_ReadAll string
  | Call_graphql_Parse string
  | Call_ini_Load string
  | Call_hclsyntax_ParseConfig string
  | Call_prototext_Unmarshal string
  | Call_goldmark_Convert string

section \<open>The validator registry\<close>

definition validatorMap :: "(Format \<times> (unit \<Rightarrow> Validator)) list" where
  "validatorMap =
    [(FormatJSON, \<lambda>_. JSONValidator \<lparr>format = FormatJSON\<rparr>),
     (FormatYAML, \<lambda>_. YAMLValidator \<lparr>format = FormatYAML\<rparr>),
     (FormatXML, \<lambda>_. XMLValidator \<lparr>format = FormatXML\<rparr>),
     (FormatTOML, \<lambda>_. TOMLValidator \<lparr>format = FormatTOML\<rparr>),
     (FormatCSV, \<lambda>_. CSVValidator \<lparr>format = FormatCSV\<rparr>),
     (FormatGraphQL, \<lambda>_. GraphQLValidator \<lparr>format = FormatGraphQL\<rparr>),
     (FormatINI, \<lambda>_. INIValidator \<lparr>format = FormatINI\<rparr>),
     (FormatHCL, \<lambda>_. HCLValidator \<lparr>format = FormatHCL\<rparr>),
     (FormatProtobuf, \<lambda>_. ProtobufValidator \<lparr>format = FormatProtobuf\<rparr>),
     (FormatMarkdown, \<lambda>_. MarkdownValidator \<lparr>format = FormatMarkdown\<rparr>),
     (FormatJSONL, \<lambda>_. JSONLValidator \<lparr>format = FormatJSONL\<rparr>),
     (FormatJupyter, \<lambda>_. JupyterValidator \<lparr>format = FormatJupyter\<rparr>),
     (FormatRequirements, \<lambda>_. RequirementsValidator \<lparr>format = FormatRequirements\<rparr>),
     (FormatDockerfile, \<lambda>_. DockerfileValidator \<lparr>format = FormatDockerfile\<rparr>)]"

text \<open>The error of \<open>NewValidator\<close> is its message, \<open>fmt.Errorf("unsupported format: %s", format)\<close>.\<close>

definition NewValidator :: "Format \<Rightarrow> string + Validator" where
  "NewValidator fmt =
     (case map_of validatorMap fmt of
        None \<Rightarrow> Inl (''unsupported format: '' @ fmt)
      | Some constructor \<Rightarrow> Inr (constructor ()))"

fun baseOf :: "Validator \<Rightarrow> baseValidator" where
  "baseOf (JSONValidator b) = b"
| "baseOf (YAMLValidator b) = b"
| "baseOf (XMLValidator b) = b"
| "baseOf (TOMLValidator b) = b"
| "baseOf (CSVValidator b) = b"
| "baseOf (GraphQLValidator b) = b"
| "baseOf (INIValidator b) = b"
| "baseOf (HCLValidator b) = b"
| "baseOf (ProtobufValidator b) = b"
| "baseOf (MarkdownValidator b) = b"
| "baseOf (JSONLValidator b) = b"
| "baseOf (JupyterValidator b) = b"
| "baseOf (RequirementsValidator b) = b"
| "baseOf (DockerfileValidator b) = b"

text \<open>The method \<open>Format()\<close>, promoted from the embedded \<open>baseValidator\<close>.\<close>

definition Validator_Format :: "Validator \<Rightarrow> Format" where
  "Validator_Format v = format (baseOf v)"

section \<open>The validators\<close>

definition errorString :: "string option \<Rightarrow> string" where
  "errorString err = (case err of None \<Rightarrow> [] | Some msg \<Rightarrow> msg)"

definition mkResult :: "bool \<Rightarrow> Format \<Rightarrow> string \<Rightarrow> Result" where
  "mkResult v f e = \<lparr>Valid = v, Format = f, Error = e, FileName = []\<rparr>"

definition JSONValidator_Validate :: "collaborators \<Rightarrow> baseValidator \<Rightarrow> string \<Rightarrow> call list \<times> Result" where
  "JSONValidator_Validate E v data =
     (let err = json_Unmarshal E data
      in ([Call_json_Unmarshal data], mkResult (err = None) (format v) (errorString err)))"

definition YAMLValidator_Validate :: "collaborators \<Rightarrow> baseValidator \<Rightarrow> string \<Rightarrow> call list \<times> Result" where
  "YAMLValidator_Validate E v data =
     (let err = yaml_Unmarshal E data
      in ([Call_yaml_Unmarshal data], mkResult (err = None) (format v) (errorString err)))"

definition XMLValidator_Validate :: "collaborators \<Rightarrow> baseValidator \<Rightarrow> string \<Rightarrow> call list \<times> Result" where
  "XMLValidator_Validate E v data =
     (let err = xml_Unmarshal E data
      in ([Call_xml_Unmarshal data], mkResult (err = None) (format v) (errorString err)))"

definition TOMLValidator_Validate :: "collaborators \<Rightarrow> baseValidator \<Rightarrow> string \<Rightarrow> call list \<times> Result" where
  "TOMLValidator_Validate E v data =
     (let err = toml_Unmarshal E data
      in ([Call_toml_Unmarshal data], mkResult (err = None) (format v) (errorString err)))"

definition CSVValidator_Validate :: "collaborators \<Rightarrow> baseValidator \<Rightarrow> string \<Rightarrow> call list \<times> Result" where
  "CSVValidator_Validate E v data =
     (let err = csv_ReadAll E data
      in ([Call_csv_ReadAll data], mkResult (err = None) (format v) (errorString err)))"

definition GraphQLValidator_Validate :: "collaborators \<Rightarrow> baseValidator \<Rightarrow> string \<Rightarrow> call list \<times> Result" where
  "GraphQLValidator_Validate E v data =
     (if length data = 0 then ([], mkResult False (format v) ''empty GraphQL content'')
      else let err = graphql_Parse E data
           in ([Call_graphql_Parse data], mkResult (err = None) (format v) (errorString err)))"

definition INIValidator_Validate :: "collaborators \<Rightarrow> baseValidator \<Rightarrow> string \<Rightarrow> call list \<times> Result" where
  "INIValidator_Validate E v data =
     (let err = ini_Load E data
      in ([Call_ini_Load data], mkResult (err = None) (format v) (errorString err)))"

definition HCLValidator_Validate :: "collaborators \<Rightarrow> baseValidator \<Rightarrow> string \<Rightarrow> call list \<times> Result" where
  "HCLValidator_Validate E v data =
     (let diags = hclsyntax_ParseConfig E data;
          errStr = (if HasErrors diags then DiagnosticsError diags else [])
      in ([Call_hclsyntax_ParseConfig data], mkResult (\<not> HasErrors diags) (format v) errStr))"

definition ProtobufValidator_Validate :: "collaborators \<Rightarrow> baseValidator \<Rightarrow> string \<Rightarrow> call list \<times> Result" where
  "ProtobufValidator_Validate E v data =
     (let err = prototext_Unmarshal E data
      in ([Call_prototext_Unmarshal data], mkResult (err = None) (format v) (errorString err)))"

definition MarkdownValidator_Validate :: "collaborators \<Rightarrow> baseValidator \<Rightarrow> string \<Rightarrow> call list \<times> Result" where
  "MarkdownValidator_Validate E v data =
     (let err = goldmark_Convert E data
      in ([Call_goldmark_Convert data], mkResult (err = None) (format v) (errorString err)))"

text \<open>
  The loop \<open>for i, line := range lines\<close> of the JSON Lines validator, from index \<open>i\<close> on
  the lines still to visit. It returns at the first line whose parse fails.
\<close>

fun JSONL_range :: "collaborators \<Rightarrow> Format \<Rightarrow> nat \<Rightarrow> string list \<Rightarrow> call list \<times> Result" where
  "JSONL_range E fmt i [] = ([], mkResult True fmt [])"
| "JSONL_range E fmt i (raw # rest) =
     (let line = TrimSpace raw in
      if line = [] then JSONL_range E fmt (i + 1) rest
      else (case json_Unmarshal E line of
              Some err \<Rightarrow>
                ([Call_json_Unmarshal line],
                 mkResult False fmt (''invalid JSON on line '' @ decimal (i + 1) @ '': '' @ err))
            | None \<Rightarrow>
                (case JSONL_range E fmt (i + 1) rest of
                   (calls, r) \<Rightarrow> (Call_json_Unmarshal line # calls, r))))"

definition JSONLValidator_Validate :: "collaborators \<Rightarrow> baseValidator \<Rightarrow> string \<Rightarrow> call list \<times> Result" where
  "JSONLValidator_Validate E v data =
     (if length data = 0 then ([], mkResult True (format v) [])
      else JSONL_range E (format v) 0 (SplitLines data))"

definition JupyterValidator_Validate :: "collaborators \<Rightarrow> baseValidator \<Rightarrow> string \<Rightarrow> call list \<times> Result" where
  "JupyterValidator_Validate E v data =
     ([Call_json_Unmarshal_map data],
      (case json_Unmarshal_map E data of
         Inl err \<Rightarrow> mkResult False (format v) (''invalid JSON: '' @ err)
       | Inr notebook \<Rightarrow>
           if ''cells'' \<notin> notebook then mkResult False (format v) ''missing required field: cells''
           else if ''metadata'' \<notin> notebook then mkResult False (format v) ''missing required field: metadata''
           else if ''nbformat'' \<notin> notebook then mkResult False (format v) ''missing required field: nbformat''
           else mkResult True (format v) []))"

fun Requirements_range :: "Format \<Rightarrow> nat \<Rightarrow> string list \<Rightarrow> Result" where
  "Requirements_range fmt i [] = mkResult True fmt []"
| "Requirements_range fmt i (raw # rest) =
     (let line = TrimSpace raw in
      if line = [] \<or> HasPrefix line ''#'' then Requirements_range fmt (i + 1) rest
      else if \<not> ContainsAny line ''abcdefghijklmnopqrstuvwxyzABCDEFGHIJKLMNOPQRSTUVWXYZ0123456789_-''
        then mkResult False fmt (''invalid requirement on line '' @ decimal (i + 1) @ '': '' @ line)
      else Requirements_range fmt (i + 1) rest)"

definition RequirementsValidator_Validate :: "collaborators \<Rightarrow> baseValidator \<Rightarrow> string \<Rightarrow> call list \<times> Result" where
  "RequirementsValidator_Validate E v data = ([], Requirements_range (format v) 0 (SplitLines data))"

definition validInstructions :: "string list" where
  "validInstructions =
    [''FROM'', ''RUN'', ''CMD'', ''LABEL'', ''EXPOSE'', ''ENV'', ''ADD'', ''COPY'',
     ''ENTRYPOINT'', ''VOLUME'', ''USER'', ''WORKDIR'', ''ARG'', ''ONBUILD'', ''STOPSIGNAL'',
     ''HEALTHCHECK'', ''SHELL'']"

text \<open>
  The loop of the Dockerfile validator from index \<open>i\<close> with the current \<open>hasFrom\<close>. It
  reads the previous physical line \<open>lines[i-1]\<close>, so it runs on indices. \<open>Inl\<close> is the
  result returned from inside the loop, \<open>Inr\<close> the value of \<open>hasFrom\<close> when the loop ends.
\<close>

function Dockerfile_range :: "collaborators \<Rightarrow> Format \<Rightarrow> string list \<Rightarrow> nat \<Rightarrow> bool \<Rightarrow> Result + bool" where
  "Dockerfile_range E fmt lines i hasFrom =
     (if length lines \<le> i then Inr hasFrom
      else
        let line = TrimSpace (lines ! i) in
        if line = [] \<or> HasPrefix line ''#'' then Dockerfile_range E fmt lines (i + 1) hasFrom
        else
          let hasFrom' = (if HasPrefix (ToUpper (unicode_MapUpper E) line) ''FROM '' then True else hasFrom);
              upperLine = ToUpper (unicode_MapUpper E) line;
              hasValidInstruction =
                list_ex (\<lambda>instruction. HasPrefix upperLine (instruction @ '' '') \<or> upperLine = instruction)
                  validInstructions
          in
            if 0 < i \<and> HasSuffix (lines ! (i - 1)) [CHR 0x5C] then Dockerfile_range E fmt lines (i + 1) hasFrom'
            else if \<not> hasValidInstruction
              then Inl (mkResult False fmt (''invalid instruction on line '' @ decimal (i + 1) @ '': '' @ line))
            else Dockerfile_range E fmt lines (i + 1) hasFrom')"
  by pat_completeness auto
termination
  by (relation "measure (\<lambda>(E, fmt, lines, i, hasFrom). length lines - i)") auto

declare Dockerfile_range.simps [simp del]

definition DockerfileValidator_Validate :: "collaborators \<Rightarrow> baseValidator \<Rightarrow> string \<Rightarrow> call list \<times> Result" where
  "DockerfileValidator_Validate E v data =
     ([],
      (case Dockerfile_range E (format v) (SplitLines data) 0 False of
         Inl r \<Rightarrow> r
       | Inr hasFrom \<Rightarrow>
           if \<not> hasFrom then mkResult False (format v) ''missing required FROM instruction''
           else mkResult True (format v) []))"

text \<open>
  The interface method \<open>Validate\<close>: dispatch on the dynamic type of the validator. The
  entry of the method is recorded before the calls the method makes.
\<close>

fun Validate_method :: "collaborators \<Rightarrow> Validator \<Rightarrow> string \<Rightarrow> call list \<times> Result" where
  "Validate_method E (JSONValidator b) data = JSONValidator_Validate E b data"
| "Validate_method E (YAMLValidator b) data = YAMLValidator_Validate E b data"
| "Validate_method E (XMLValidator b) data = XMLValidator_Validate E b data"
| "Validate_method E (TOMLValidator b) data = TOMLValidator_Validate E b data"
| "Validate_method E (CSVValidator b) data = CSVValidator_Validate E b data"
| "Validate_method E (GraphQLValidator b) data = GraphQLValidator_Validate E b data"
| "Validate_method E (INIValidator b) data = INIValidator_Validate E b data"
| "Validate_method E (HCLValidator b) data = HCLValidator_Validate E b data"
| "Validate_method E (ProtobufValidator b) data = ProtobufValidator_Validate E b data"
| "Validate_method E (MarkdownValidator b) data = MarkdownValidator_Validate E b data"
| "Validate_method E (JSONLValidator b) data = JSONLValidator_Validate E b data"
| "Validate_method E (JupyterValidator b) data = JupyterValidator_Validate E b data"
| "Validate_method E (RequirementsValidator b) data = RequirementsValidator_Validate E b data"
| "Validate_method E (DockerfileValidator b) data = DockerfileValidator_Validate E b data"

definition Validate :: "collaborators \<Rightarrow> Validator \<Rightarrow> string \<Rightarrow> call list \<times> Result" where
  "Validate E v data =
     (case Validate_method E v data of (calls, r) \<Rightarrow> (Call_Validate v data # calls, r))"

text \<open>\<open>ValidateString(data)\<close> is \<open>v.Validate([]byte(data))\<close> for every validator.\<close>

definition ValidateString :: "collaborators \<Rightarrow> Validator \<Rightarrow> string \<Rightarrow> call list \<times> Result" where
  "ValidateString E v data = Validate E v data"


section \<open>Content detection\<close>

definition isJupyterNotebook :: "string \<Rightarrow> bool" where
  \<open>isJupyterNotebook trimmed \<longleftrightarrow>
     HasPrefix trimmed ''{'' \<and>
     Contains trimmed ''"cells"'' \<and>
     Contains trimmed ''"metadata"'' \<and>
     Contains trimmed ''"nbformat"''\<close>

definition isJSONLine :: "string \<Rightarrow> bool" where
  "isJSONLine line \<longleftrightarrow>
     (HasPrefix line ''{'' \<and> HasSuffix line ''}'') \<or>
     (HasPrefix line ''['' \<and> HasSuffix line '']'')"

text \<open>
  The loop of \<open>isJSONLines\<close> with the running \<open>validLines\<close>: \<open>None\<close> is the
  \<open>return false\<close> from inside the loop, \<open>Some n\<close> the count when the loop ends.
\<close>

fun isJSONLines_range :: "string list \<Rightarrow> nat \<Rightarrow> nat option" where
  "isJSONLines_range [] validLines = Some validLines"
| "isJSONLines_range (raw # rest) validLines =
     (let line = TrimSpace raw in
      if line = [] then isJSONLines_range rest validLines
      else if \<not> isJSONLine line then None
      else isJSONLines_range rest (validLines + 1))"

definition isJSONLines :: "string list \<Rightarrow> bool" where
  "isJSONLines lines =
     (if length lines \<le> 1 then False
      else (case isJSONLines_range lines 0 of None \<Rightarrow> False | Some validLines \<Rightarrow> 1 < validLines))"

definition isJSON :: "string \<Rightarrow> bool" where
  "isJSON trimmed =
     (if length trimmed = 0 then False
      else (HasPrefix trimmed ''{'' \<and> HasSuffix trimmed ''}'') \<or>
           (HasPrefix trimmed ''['' \<and> HasSuffix trimmed '']''))"

definition detectJSONFamily :: "string \<Rightarrow> string list \<Rightarrow> Format" where
  "detectJSONFamily trimmed lines =
     (if isJupyterNotebook trimmed then FormatJupyter
      else if isJSONLines lines then FormatJSONL
      else if isJSON trimmed then FormatJSON
      else FormatUnknown)"

definition countPatterns :: "string \<Rightarrow> string list \<Rightarrow> nat" where
  "countPatterns text patterns = length (filter (\<lambda>pattern. Contains text pattern) patterns)"

definition isDockerfile :: "string \<Rightarrow> bool" where
  "isDockerfile upperTrimmed =
     (let dockerKeywords =
            [''FROM '', ''RUN '', ''CMD '', ''EXPOSE '', ''ENV '', ''ADD '', ''COPY '',
             ''ENTRYPOINT '', ''VOLUME '', ''USER '', ''WORKDIR '', ''ARG ''];
          dockerScore = countPatterns upperTrimmed dockerKeywords
      in Contains upperTrimmed ''FROM '' \<or> 3 \<le> dockerScore)"

definition isHCL :: "string \<Rightarrow> bool" where
  \<open>isHCL trimmed =
     (let hclPatterns =
            [''resource '', ''variable '', ''provider '', ''module '',
             ''output '', ''locals '', ''terraform '', ''data ''];
          hclScore = countPatterns trimmed hclPatterns
      in 0 < hclScore \<and> Contains trimmed ''='' \<and> Contains trimmed ''"'' \<and> Contains trimmed ''{'')\<close>

definition isGraphQL :: "string \<Rightarrow> bool" where
  "isGraphQL trimmed =
     (let graphqlPatterns =
            [''query '', ''mutation '', ''subscription '', ''fragment '', ''type '',
             ''interface '', ''enum '', ''input '', ''scalar '', ''schema ''];
          graphqlScore = countPatterns trimmed graphqlPatterns
      in if graphqlScore = 0 \<or> \<not> Contains trimmed ''{'' \<or> \<not> Contains trimmed ''}'' then False
         else Contains trimmed [CHR ''{'', CHR 0x0A] \<or> Contains trimmed ''{ '' \<or> 2 \<le> graphqlScore)"

definition isProtobuf :: "string \<Rightarrow> bool" where
  \<open>isProtobuf trimmed \<longleftrightarrow>
     (Contains trimmed ''type_url:'' \<or> Contains trimmed ''value:'') \<and> Contains trimmed ''"''\<close>

definition detectDeveloperFormats :: "collaborators \<Rightarrow> string \<Rightarrow> string list \<Rightarrow> Format" where
  "detectDeveloperFormats E trimmed lines =
     (let upperTrimmed = ToUpper (unicode_MapUpper E) trimmed in
      if isDockerfile upperTrimmed then FormatDockerfile
      else if isHCL trimmed then FormatHCL
      else if isGraphQL trimmed then FormatGraphQL
      else if isProtobuf trimmed then FormatProtobuf
      else FormatUnknown)"

definition detectCSV :: "string \<Rightarrow> string list \<Rightarrow> bool" where
  "detectCSV trimmed lines =
     (if \<not> Contains trimmed '','' \<or> length lines \<le> 1 then False
      else let firstLineCommas = CountByte (lines ! 0) (CHR '','') in
        if firstLineCommas = 0 then False
        else list_all (\<lambda>i. \<not> (lines ! i \<noteq> [] \<and> CountByte (lines ! i) (CHR '','') \<noteq> firstLineCommas))
               [1..<min (length lines) 5])"

definition detectMarkdown :: "string \<Rightarrow> string list \<Rightarrow> bool" where
  "detectMarkdown trimmed lines =
     (if length lines = 0 then False
      else HasPrefix (lines ! 0) ''#'' \<or>
           Contains trimmed ''```'' \<or>
           Contains trimmed ''**'' \<or>
           Contains trimmed ''~~'' \<or>
           (Contains trimmed ''['' \<and> Contains trimmed ''](''))"

definition detectRequirements :: "string \<Rightarrow> string list \<Rightarrow> bool" where
  "detectRequirements trimmed lines =
     (if \<not> Contains trimmed ''=='' \<and> \<not> Contains trimmed ''>='' \<and>
         \<not> Contains trimmed ''<='' \<and> \<not> Contains trimmed ''~='' then False
      else list_ex (\<lambda>raw. let line = TrimSpace raw in
                      line \<noteq> [] \<and> \<not> HasPrefix line ''#'' \<and>
                      ContainsAny line ''abcdefghijklmnopqrstuvwxyz'') lines)"

definition detectDataFormats :: "string \<Rightarrow> string list \<Rightarrow> Format" where
  "detectDataFormats trimmed lines =
     (if detectCSV trimmed lines then FormatCSV
      else if detectMarkdown trimmed lines then FormatMarkdown
      else if detectRequirements trimmed lines then FormatRequirements
      else FormatUnknown)"

definition isXML :: "string \<Rightarrow> bool" where
  "isXML trimmed \<longleftrightarrow>
     HasPrefix trimmed ''<?xml'' \<or> (HasPrefix trimmed ''<'' \<and> Contains trimmed ''>'')"

definition isINI :: "string \<Rightarrow> string list \<Rightarrow> bool" where
  "isINI trimmed lines =
     (if \<not> Contains trimmed ''['' \<or> \<not> Contains trimmed '']'' then False
      else list_ex (\<lambda>raw. let line = TrimSpace raw in
                      HasPrefix line ''['' \<and> HasSuffix line '']'') lines)"

definition isYAML :: "string \<Rightarrow> bool" where
  "isYAML trimmed =
     (if Contains trimmed ''---'' then True
      else if \<not> Contains trimmed '':'' \<or> Contains trimmed ''://'' then False
      else if Contains trimmed ''type_url:'' \<or> Contains trimmed ''value:'' then False
      else Contains trimmed '': '' \<or> HasSuffix trimmed '':'')"

definition isTOML :: "string \<Rightarrow> bool" where
  "isTOML trimmed =
     (if \<not> Contains trimmed ''='' \<or> Contains trimmed '':'' then False
      else \<not> HasPrefix trimmed ''{'' \<and> \<not> HasPrefix trimmed ''['' \<and> \<not> HasPrefix trimmed ''<'')"

definition detectConfigFormats :: "string \<Rightarrow> string list \<Rightarrow> Format" where
  "detectConfigFormats trimmed lines =
     (if isXML trimmed then FormatXML
      else if isINI trimmed lines then FormatINI
      else if isYAML trimmed then FormatYAML
      else if isTOML trimmed then FormatTOML
      else FormatUnknown)"

definition DetectFormat :: "collaborators \<Rightarrow> string \<Rightarrow> Format" where
  "DetectFormat E data =
     (let trimmed = TrimSpace data in
      if length trimmed = 0 then FormatUnknown
      else
        let lines = SplitLines trimmed in
        if detectJSONFamily trimmed lines \<noteq> FormatUnknown then detectJSONFamily trimmed lines
        else if detectDeveloperFormats E trimmed lines \<noteq> FormatUnknown
          then detectDeveloperFormats E trimmed lines
        else if detectDataFormats trimmed lines \<noteq> FormatUnknown then detectDataFormats trimmed lines
        else if detectConfigFormats trimmed lines \<noteq> FormatUnknown then detectConfigFormats trimmed lines
        else FormatUnknown)"

section \<open>Automatic validation\<close>

definition ValidateAuto :: "collaborators \<Rightarrow> string \<Rightarrow> call list \<times> Result" where
  "ValidateAuto E data =
     (let fmt = DetectFormat E data in
      if fmt = FormatUnknown then ([], mkResult False FormatUnknown ''unable to detect format'')
      else (case NewValidator fmt of
              Inl err \<Rightarrow> ([], mkResult False fmt err)
            | Inr validator \<Rightarrow> Validate E validator data))"

section \<open>Detection from the file name\<close>

definition extensionMap :: "(string \<times> Format) list" where
  "extensionMap =
    [(''json'', FormatJSON),
     (''yaml'', FormatYAML),
     (''yml'', FormatYAML),
     (''xml'', FormatXML),
     (''toml'', FormatTOML),
     (''csv'', FormatCSV),
     (''graphql'', FormatGraphQL),
     (''gql'', FormatGraphQL),
     (''ini'', FormatINI),
     (''cfg'', FormatINI),
     (''conf'', FormatINI),
     (''hcl'', FormatHCL),
     (''tf'', FormatHCL),
     (''tfvars'', FormatHCL),
     (''pb'', FormatProtobuf),
     (''proto'', FormatProtobuf),
     (''textproto'', FormatProtobuf),
     (''pbtxt'', FormatProtobuf),
     (''md'', FormatMarkdown),
     (''markdown'', FormatMarkdown),
     (''mkd'', FormatMarkdown),
     (''mdwn'', FormatMarkdown),
     (''mdown'', FormatMarkdown),
     (''mdtxt'', FormatMarkdown),
     (''mdtext'', FormatMarkdown),
     (''jsonl'', FormatJSONL),
     (''ndjson'', FormatJSONL),
     (''jsonlines'', FormatJSONL),
     (''ipynb'', FormatJupyter),
     (''dockerfile'', FormatDockerfile),
     (''containerfile'', FormatDockerfile)]"

text \<open>A slice \<open>s[i:]\<close> with \<open>0 \<le> i \<le> len(s)\<close>, which holds at both uses below.\<close>

definition sliceFrom :: "string \<Rightarrow> int \<Rightarrow> string" where
  "sliceFrom s i = drop (nat i) s"

definition DetectFormatFromFilename :: "collaborators \<Rightarrow> string \<Rightarrow> Format" where
  "DetectFormatFromFilename E filename =
     (let baseName = ToLower (unicode_MapLower E) (sliceFrom filename (LastIndexByte filename (CHR ''/'') + 1));
          dockerfileName = ''dockerfile''
      in
        if baseName = dockerfileName \<or> HasPrefix baseName (dockerfileName @ ''.'') then FormatDockerfile
        else
          let lastDot = LastIndexByte filename (CHR ''.'') in
          if lastDot = -1 then FormatUnknown
          else
            let ext = ToLower (unicode_MapLower E) (TrimPrefix (sliceFrom filename lastDot) ''.'') in
            if ext = ''txt'' \<and> Contains (ToLower (unicode_MapLower E) filename) ''requirements''
              then FormatRequirements
            else (case map_of extensionMap ext of Some fmt \<Rightarrow> fmt | None \<Rightarrow> FormatUnknown))"


section \<open>Reference definitions\<close>

text \<open>The tags of the registry, in the order of the map literal.\<close>

definition registeredFormats :: "Format list" where
  "registeredFormats = map fst validatorMap"

text \<open>
  The file-name rule as the specification words it: the last path segment decides a
  Dockerfile; a name without a dot is unknown; the extension is what follows the last dot;
  \<open>txt\<close> with \<open>requirements\<close> anywhere in the lower-cased name is a requirements list;
  otherwise the extension table decides.
\<close>

definition lastPathSegment :: "string \<Rightarrow> string" where
  "lastPathSegment name = rev (takeWhile (\<lambda>c. c \<noteq> CHR ''/'') (rev name))"

definition afterLastDot :: "string \<Rightarrow> string" where
  "afterLastDot name = rev (takeWhile (\<lambda>c. c \<noteq> CHR ''.'') (rev name))"

definition filenameRule :: "collaborators \<Rightarrow> string \<Rightarrow> Format" where
  "filenameRule E name =
     (let segment = ToLower (unicode_MapLower E) (lastPathSegment name) in
      if segment = ''dockerfile'' \<or> prefix ''dockerfile.'' segment then FormatDockerfile
      else if CHR ''.'' \<notin> set name then FormatUnknown
      else
        let ext = ToLower (unicode_MapLower E) (afterLastDot name) in
        if ext = ''txt'' \<and> sublist ''requirements'' (ToLower (unicode_MapLower E) name)
          then FormatRequirements
        else (case map_of extensionMap ext of None \<Rightarrow> FormatUnknown | Some fmt \<Rightarrow> fmt))"

text \<open>
  The external parser of a tag, as the specification lists them: the call it is invoked
  with on a buffer and the error it reports there (\<open>None\<close> when it accepts). The four
  tags whose validators do their own structural checks have no entry.
\<close>

definition externalParser :: "collaborators \<Rightarrow> Format \<Rightarrow> string \<Rightarrow> (call \<times> string option) option" where
  "externalParser E fmt data =
     (if fmt = FormatJSON then Some (Call_json_Unmarshal data, json_Unmarshal E data)
      else if fmt = FormatYAML then Some (Call_yaml_Unmarshal data, yaml_Unmarshal E data)
      else if fmt = FormatXML then Some (Call_xml_Unmarshal data, xml_Unmarshal E data)
      else if fmt = FormatTOML then Some (Call_toml_Unmarshal data, toml_Unmarshal E data)
      else if fmt = FormatCSV then Some (Call_csv_ReadAll data, csv_ReadAll E data)
      else if fmt = FormatGraphQL then Some (Call_graphql_Parse data, graphql_Parse E data)
      else if fmt = FormatINI then Some (Call_ini_Load data, ini_Load E data)
      else if fmt = FormatHCL then
        Some (Call_hclsyntax_ParseConfig data,
              if HasErrors (hclsyntax_ParseConfig E data)
              then Some (DiagnosticsError (hclsyntax_ParseConfig E data)) else None)
      else if fmt = FormatProtobuf then Some (Call_prototext_Unmarshal data, prototext_Unmarshal E data)
      else if fmt = FormatMarkdown then Some (Call_goldmark_Convert data, goldmark_Convert E data)
      else None)"

text \<open>Reading a decimal numeral back, to state what \<open>decimal\<close> renders.\<close>

definition decimalValue :: "string \<Rightarrow> nat" where
  "decimalValue s = foldl (\<lambda>a c. 10 * a + (of_char c - 48)) 0 s"

text \<open>
  A small set of collaborators on which the model can be run: a JSON decoder that accepts
  what starts with a brace or a bracket, a GraphQL parser that rejects everything, parsers
  that accept everything for the other formats, and identity for the Unicode case maps.
\<close>

definition sampleCollaborators :: collaborators where
  "sampleCollaborators =
     \<lparr>json_Unmarshal = (\<lambda>s. if HasPrefix s ''{'' \<or> HasPrefix s ''['' then None else Some ''invalid character''),
      json_Unmarshal_map = (\<lambda>s. if HasPrefix s ''{'' then Inr {''cells''} else Inl ''invalid character''),
      yaml_Unmarshal = (\<lambda>s. None),
      xml_Unmarshal = (\<lambda>s. None),
      toml_Unmarshal = (\<lambda>s. None),
      csv_ReadAll = (\<lambda>s. None),
      graphql_Parse = (\<lambda>s. Some ''Syntax Error''),
      ini_Load = (\<lambda>s. None),
      hclsyntax_ParseConfig = (\<lambda>s. \<lparr>HasErrors = False, DiagnosticsError = ''no diagnostics''\<rparr>),
      prototext_Unmarshal = (\<lambda>s. None),
      goldmark_Convert = (\<lambda>s. None),
      unicode_MapUpper = (\<lambda>s. s),
      unicode_MapLower = (\<lambda>s. s)\<rparr>"

text \<open>
  A JSON decoder that, like \<open>encoding/json\<close>, skips only the four white-space
  characters of JSON (space, tab, line feed, carriage return) before the value, and then
  accepts what starts with a brace or a bracket. A form feed or a no-break space before
  the value is an error for it, although \<open>strings.TrimSpace\<close> removes both.
\<close>

definition skipJSONSpace :: "string \<Rightarrow> string" where
  "skipJSONSpace s = dropWhile (\<lambda>c. c \<in> {CHR 0x20, CHR 0x09, CHR 0x0A, CHR 0x0D}) s"

definition jsonSpaceDecoder :: "string \<Rightarrow> string option" where
  "jsonSpaceDecoder s =
     (if HasPrefix (skipJSONSpace s) ''{'' \<or> HasPrefix (skipJSONSpace s) ''[''
      then None else Some ''invalid character looking for beginning of value'')"

definition jsonSpaceCollaborators :: collaborators where
  "jsonSpaceCollaborators = sampleCollaborators\<lparr>json_Unmarshal := jsonSpaceDecoder\<rparr>"

section \<open>Basic facts\<close>

lemmas Format_defs =
  FormatJSON_def FormatYAML_def FormatXML_def FormatTOML_def FormatCSV_def FormatGraphQL_def
  FormatINI_def FormatHCL_def FormatProtobuf_def FormatMarkdown_def FormatJSONL_def
  FormatJupyter_def FormatRequirements_def FormatDockerfile_def FormatAuto_def FormatUnknown_def

lemma Contains_iff_sublist: "Contains s sub \<longleftrightarrow> sublist sub s"
  by (induction s) (simp_all add: sublist_Cons_right)

section \<open>JSON Lines and Jupyter detection\<close>











text \<open>
  C2. A buffer whose trimmed text starts with \<open>{\<close> and contains the three quoted keys
  \<open>"cells"\<close>, \<open>"metadata"\<close> and \<open>"nbformat"\<close> is detected as a Jupyter notebook, hence
  neither as plain JSON nor as JSON Lines.
\<close>

theorem C2_jupyter_precedence:
  assumes \<open>prefix ''{'' (TrimSpace data)\<close>
    and \<open>sublist ''"cells"'' (TrimSpace data)\<close>
    and \<open>sublist ''"metadata"'' (TrimSpace data)\<close>
    and \<open>sublist ''"nbformat"'' (TrimSpace data)\<close>
  shows "DetectFormat E data = FormatJupyter \<and> DetectFormat E data \<noteq> FormatJSON \<and>
         DetectFormat E data \<noteq> FormatJSONL"
proof -
  have "isJupyterNotebook (TrimSpace data)"
    using assms by (simp add: isJupyterNotebook_def HasPrefix_def Contains_iff_sublist)
  moreover from assms(1) have "TrimSpace data \<noteq> []" by auto
  ultimately have "DetectFormat E data = FormatJupyter"
    by (simp add: DetectFormat_def Let_def detectJSONFamily_def Format_defs)
  then show ?thesis by (simp add: Format_defs)
qed

theorem C2_jupyter_precedence_witness:
  \<open>prefix ''{'' (TrimSpace ''{"cells":[],"metadata":{},"nbformat":4}'') \<and>
   sublist ''"cells"'' (TrimSpace ''{"cells":[],"metadata":{},"nbformat":4}'') \<and>
   sublist ''"metadata"'' (TrimSpace ''{"cells":[],"metadata":{},"nbformat":4}'') \<and>
   sublist ''"nbformat"'' (TrimSpace ''{"cells":[],"metadata":{},"nbformat":4}'') \<and>
   DetectFormat sampleCollaborators ''{"cells":[],"metadata":{},"nbformat":4}'' = FormatJupyter\<close>
proof -
  define d where \<open>d = ''{"cells":[],"metadata":{},"nbformat":4}''\<close>
  have a: \<open>prefix ''{'' (TrimSpace d)\<close> unfolding d_def by code_simp
  have b: \<open>sublist ''"cells"'' (TrimSpace d)\<close> unfolding d_def by code_simp
  have c: \<open>sublist ''"metadata"'' (TrimSpace d)\<close> unfolding d_def by code_simp
  have e: \<open>sublist ''"nbformat"'' (TrimSpace d)\<close> unfolding d_def by code_simp
  from a b c e C2_jupyter_precedence [OF a b c e, of sampleCollaborators]
  show ?thesis unfolding d_def by blast
qed


section \<open>Trimming, the registry and the range of detection\<close>

lemma TrimSpace_Nil: "TrimSpace [] = []"
  by (simp add: TrimSpace_def TrimLeftSpace.simps TrimRightSpace.simps leadingSpace_def
      trailingSpace_def unicodeSpaces_def)

lemma leadingSpace_all:
  "\<forall>e\<in>set unicodeSpaces. leadingSpace (e @ rest) = length e"
  unfolding leadingSpace_def unicodeSpaces_def by simp

lemma leadingSpace_encoding:
  assumes "e \<in> set unicodeSpaces"
  shows "leadingSpace (e @ rest) = length e"
  using assms leadingSpace_all by blast

lemma TrimLeftSpace_spaces:
  "set ws \<subseteq> set unicodeSpaces \<Longrightarrow> TrimLeftSpace (concat ws) = []"
proof (induction ws)
  case Nil
  show ?case by (simp add: TrimLeftSpace.simps leadingSpace_def unicodeSpaces_def)
next
  case (Cons e ws)
  then have e: "e \<in> set unicodeSpaces" and ws: "set ws \<subseteq> set unicodeSpaces" by auto
  have len: "leadingSpace (e @ concat ws) = length e" by (rule leadingSpace_encoding [OF e])
  have "e \<noteq> []" using e unfolding unicodeSpaces_def by auto
  with len have "TrimLeftSpace (e @ concat ws) = TrimLeftSpace (concat ws)"
    by (subst TrimLeftSpace.simps) simp
  with Cons.IH [OF ws] show ?case by simp
qed

lemma TrimSpace_spaces:
  "set ws \<subseteq> set unicodeSpaces \<Longrightarrow> TrimSpace (concat ws) = []"
proof -
  assume "set ws \<subseteq> set unicodeSpaces"
  then have "TrimLeftSpace (concat ws) = []" by (rule TrimLeftSpace_spaces)
  moreover have "TrimRightSpace [] = []"
    by (subst TrimRightSpace.simps) (simp add: trailingSpace_def unicodeSpaces_def)
  ultimately show ?thesis by (simp add: TrimSpace_def)
qed

lemma DetectFormat_blank: "TrimSpace data = [] \<Longrightarrow> DetectFormat E data = FormatUnknown"
  by (simp add: DetectFormat_def)

text \<open>
  C3. When content detection answers unknown, \<open>ValidateAuto\<close> returns exactly
  valid = false, format = unknown, error = "unable to detect format", and makes no call:
  no validator is entered and no parser is invoked. Detection answers unknown on every
  buffer that trims to nothing, which holds for the empty buffer and for every buffer made
  of white space only.
\<close>

theorem C3_unknown_short_circuit:
  "(DetectFormat E data = FormatUnknown \<longrightarrow>
      ValidateAuto E data =
        ([], \<lparr>Valid = False, Format = FormatUnknown, Error = ''unable to detect format'', FileName = []\<rparr>)) \<and>
   (TrimSpace data = [] \<longrightarrow> DetectFormat E data = FormatUnknown) \<and>
   (data = [] \<longrightarrow> TrimSpace data = []) \<and>
   ((\<exists>ws. set ws \<subseteq> set unicodeSpaces \<and> data = concat ws) \<longrightarrow> TrimSpace data = [])"
  by (auto simp: ValidateAuto_def mkResult_def DetectFormat_blank TrimSpace_Nil TrimSpace_spaces)

theorem C3_unknown_short_circuit_witness:
  "DetectFormat sampleCollaborators ''   '' = FormatUnknown \<and>
   ValidateAuto sampleCollaborators ''   '' =
     ([], \<lparr>Valid = False, Format = FormatUnknown, Error = ''unable to detect format'', FileName = []\<rparr>) \<and>
   DetectFormat sampleCollaborators ''plain words'' = FormatUnknown \<and>
   ValidateAuto sampleCollaborators ''plain words'' =
     ([], \<lparr>Valid = False, Format = FormatUnknown, Error = ''unable to detect format'', FileName = []\<rparr>)"
proof -
  have a: "DetectFormat sampleCollaborators ''   '' = FormatUnknown" by code_simp
  have b: "DetectFormat sampleCollaborators ''plain words'' = FormatUnknown" by code_simp
  from a b C3_unknown_short_circuit [of sampleCollaborators "''   ''"]
    C3_unknown_short_circuit [of sampleCollaborators "''plain words''"]
  show ?thesis by blast
qed


lemma detectJSONFamily_range:
  "detectJSONFamily t ls \<in> {FormatJupyter, FormatJSONL, FormatJSON, FormatUnknown}"
  by (simp add: detectJSONFamily_def)

lemma detectDeveloperFormats_range:
  "detectDeveloperFormats E t ls \<in> {FormatDockerfile, FormatHCL, FormatGraphQL, FormatProtobuf, FormatUnknown}"
  by (simp add: detectDeveloperFormats_def Let_def)

lemma detectDataFormats_range:
  "detectDataFormats t ls \<in> {FormatCSV, FormatMarkdown, FormatRequirements, FormatUnknown}"
  by (simp add: detectDataFormats_def)

lemma detectConfigFormats_range:
  "detectConfigFormats t ls \<in> {FormatXML, FormatINI, FormatYAML, FormatTOML, FormatUnknown}"
  by (simp add: detectConfigFormats_def)

lemma DetectFormat_range:
  "DetectFormat E data \<in>
     {FormatJupyter, FormatJSONL, FormatJSON, FormatDockerfile, FormatHCL, FormatGraphQL,
      FormatProtobuf, FormatCSV, FormatMarkdown, FormatRequirements, FormatXML, FormatINI,
      FormatYAML, FormatTOML, FormatUnknown}"
  using detectJSONFamily_range [of "TrimSpace data" "SplitLines (TrimSpace data)"]
    detectDeveloperFormats_range [of E "TrimSpace data" "SplitLines (TrimSpace data)"]
    detectDataFormats_range [of "TrimSpace data" "SplitLines (TrimSpace data)"]
    detectConfigFormats_range [of "TrimSpace data" "SplitLines (TrimSpace data)"]
  unfolding DetectFormat_def Let_def by (simp split: if_splits) blast

lemma registeredFormats_eq:
  "registeredFormats =
     [FormatJSON, FormatYAML, FormatXML, FormatTOML, FormatCSV, FormatGraphQL, FormatINI,
      FormatHCL, FormatProtobuf, FormatMarkdown, FormatJSONL, FormatJupyter, FormatRequirements,
      FormatDockerfile]"
  by (simp add: registeredFormats_def validatorMap_def)

lemma validatorMap_constructs:
  "\<forall>(fmt, constructor) \<in> set validatorMap. Validator_Format (constructor ()) = fmt"
  by (simp add: validatorMap_def Validator_Format_def)

lemma NewValidator_registered:
  assumes "fmt \<in> set registeredFormats"
  shows "\<exists>v. NewValidator fmt = Inr v \<and> Validator_Format v = fmt"
proof -
  from assms have "fmt \<in> fst ` set validatorMap" by (simp add: registeredFormats_def)
  then obtain c where c: "map_of validatorMap fmt = Some c"
    by (metis map_of_eq_None_iff not_Some_eq)
  then have "(fmt, c) \<in> set validatorMap" by (rule map_of_SomeD)
  with validatorMap_constructs have "Validator_Format (c ()) = fmt" by blast
  with c show ?thesis by (simp add: NewValidator_def)
qed

lemma NewValidator_unregistered:
  assumes "fmt \<notin> set registeredFormats"
  shows "NewValidator fmt = Inl (''unsupported format: '' @ fmt)"
proof -
  from assms have "fmt \<notin> fst ` set validatorMap" by (simp add: registeredFormats_def)
  then have "map_of validatorMap fmt = None" by (simp add: map_of_eq_None_iff)
  then show ?thesis by (simp add: NewValidator_def)
qed

lemma sentinels_unregistered:
  "FormatAuto \<notin> set registeredFormats" "FormatUnknown \<notin> set registeredFormats"
  by (simp_all add: registeredFormats_eq Format_defs)

text \<open>
  C6. \<open>NewValidator\<close> succeeds on each of the fourteen registered tags with a validator
  whose \<open>Format()\<close> is the tag, and fails with "unsupported format: " followed by the
  tag on every other tag, among them \<open>auto\<close> and \<open>unknown\<close>.
\<close>

theorem C6_new_validator:
  "(fmt \<in> set registeredFormats \<longrightarrow> (\<exists>v. NewValidator fmt = Inr v \<and> Validator_Format v = fmt)) \<and>
   (fmt \<notin> set registeredFormats \<longrightarrow> NewValidator fmt = Inl (''unsupported format: '' @ fmt)) \<and>
   registeredFormats =
     [FormatJSON, FormatYAML, FormatXML, FormatTOML, FormatCSV, FormatGraphQL, FormatINI,
      FormatHCL, FormatProtobuf, FormatMarkdown, FormatJSONL, FormatJupyter, FormatRequirements,
      FormatDockerfile] \<and>
   NewValidator FormatAuto = Inl ''unsupported format: auto'' \<and>
   NewValidator FormatUnknown = Inl ''unsupported format: unknown''"
  using NewValidator_registered [of fmt] NewValidator_unregistered [of fmt]
    NewValidator_unregistered [OF sentinels_unregistered(1)]
    NewValidator_unregistered [OF sentinels_unregistered(2)] registeredFormats_eq
  by (simp add: FormatAuto_def FormatUnknown_def)

theorem C6_new_validator_witness:
  "FormatHCL \<in> set registeredFormats \<and>
   NewValidator FormatHCL = Inr (HCLValidator \<lparr>format = FormatHCL\<rparr>) \<and>
   Validator_Format (HCLValidator \<lparr>format = FormatHCL\<rparr>) = FormatHCL \<and>
   ''invalid'' \<notin> set registeredFormats \<and>
   NewValidator ''invalid'' = Inl ''unsupported format: invalid''"
proof -
  have a: "FormatHCL \<in> set registeredFormats" by code_simp
  have b: "''invalid'' \<notin> set registeredFormats" by code_simp
  have c: "NewValidator FormatHCL = Inr (HCLValidator \<lparr>format = FormatHCL\<rparr>)" by code_simp
  from a b c C6_new_validator [of FormatHCL] C6_new_validator [of "''invalid''"]
  show ?thesis by auto
qed

text \<open>
  C5. \<open>DetectFormat\<close> answers unknown or a registered tag, never \<open>auto\<close>; so the
  branch of \<open>ValidateAuto\<close> taken when \<open>NewValidator\<close> fails on a detected tag is
  never taken, and \<open>ValidateAuto\<close> on a detected tag is the call of that tag's
  validator.
\<close>

theorem C5_detect_registered:
  "DetectFormat E data \<in> set (FormatUnknown # registeredFormats) \<and>
   DetectFormat E data \<noteq> FormatAuto \<and>
   \<not> (DetectFormat E data \<noteq> FormatUnknown \<and> (\<exists>err. NewValidator (DetectFormat E data) = Inl err)) \<and>
   (DetectFormat E data \<noteq> FormatUnknown \<longrightarrow>
      (\<exists>v. NewValidator (DetectFormat E data) = Inr v \<and> ValidateAuto E data = Validate E v data))"
proof -
  have mem: "DetectFormat E data \<in> set (FormatUnknown # registeredFormats)"
    using DetectFormat_range [of E data] by (auto simp: registeredFormats_eq)
  then have notauto: "DetectFormat E data \<noteq> FormatAuto"
    using sentinels_unregistered(1) by (auto simp: Format_defs)
  have reg: "\<exists>v. NewValidator (DetectFormat E data) = Inr v" if "DetectFormat E data \<noteq> FormatUnknown"
    using mem that NewValidator_registered [of "DetectFormat E data"] by auto
  then have "\<not> (DetectFormat E data \<noteq> FormatUnknown \<and> (\<exists>err. NewValidator (DetectFormat E data) = Inl err))"
    by auto
  moreover have "\<exists>v. NewValidator (DetectFormat E data) = Inr v \<and> ValidateAuto E data = Validate E v data"
    if "DetectFormat E data \<noteq> FormatUnknown"
    using reg [OF that] that by (auto simp: ValidateAuto_def Let_def)
  ultimately show ?thesis using mem notauto by blast
qed

theorem C5_detect_registered_witness:
  \<open>DetectFormat sampleCollaborators ''{"a":1}'' = FormatJSON \<and>
   FormatJSON \<in> set (FormatUnknown # registeredFormats) \<and>
   FormatJSON \<noteq> FormatUnknown \<and>
   (\<exists>v. NewValidator FormatJSON = Inr v \<and>
        ValidateAuto sampleCollaborators ''{"a":1}'' = Validate sampleCollaborators v ''{"a":1}'')\<close>
proof -
  define d where \<open>d = ''{"a":1}''\<close>
  have a: "DetectFormat sampleCollaborators d = FormatJSON" unfolding d_def by code_simp
  have b: "FormatJSON \<noteq> FormatUnknown" by (simp add: Format_defs)
  from a b C5_detect_registered [of sampleCollaborators d]
  show ?thesis unfolding d_def by auto
qed


section \<open>The outcome invariant\<close>

lemma mkResult_sel [simp]:
  "Valid (mkResult v f e) = v" "Format (mkResult v f e) = f" "Error (mkResult v f e) = e"
  by (simp_all add: mkResult_def)

lemma JSONL_range_clean:
  "Valid (snd (JSONL_range E f i ls)) \<longrightarrow> Error (snd (JSONL_range E f i ls)) = []"
proof (induction ls arbitrary: i)
  case Nil
  show ?case by simp
next
  case (Cons a ls)
  show ?case using Cons.IH [of "i + 1"]
    by (auto simp: Let_def split: option.splits prod.splits)
qed

lemma Requirements_range_clean:
  "Valid (Requirements_range f i ls) \<longrightarrow> Error (Requirements_range f i ls) = []"
  by (induction ls arbitrary: i) (auto simp: Let_def)

lemma Dockerfile_range_Inl:
  "Dockerfile_range E f ls i h = Inl r \<Longrightarrow> \<not> Valid r"
proof (induction "length ls - i" arbitrary: i h)
  case 0
  then have "length ls \<le> i" by simp
  with "0.prems" show ?case by (subst (asm) Dockerfile_range.simps) simp
next
  case (Suc n)
  then have lt: "i < length ls" and n: "n = length ls - (i + 1)" by simp_all
  from Suc.prems lt have "(\<exists>h'. Dockerfile_range E f ls (i + 1) h' = Inl r) \<or> \<not> Valid r"
    by (subst (asm) Dockerfile_range.simps) (auto simp: Let_def split: if_splits)
  with Suc.hyps(1) [OF n] show ?case by blast
qed

lemma Validate_method_clean:
  assumes "Valid (snd (Validate_method E v data))"
  shows "Error (snd (Validate_method E v data)) = []"
proof (cases v)
  case (JSONLValidator b)
  with assms show ?thesis
    using JSONL_range_clean [of E "format b" 0 "SplitLines data"]
    by (auto simp: JSONLValidator_Validate_def split: if_splits)
next
  case (RequirementsValidator b)
  with assms show ?thesis
    using Requirements_range_clean [of "format b" 0 "SplitLines data"]
    by (auto simp: RequirementsValidator_Validate_def)
next
  case (DockerfileValidator b)
  with assms show ?thesis
    using Dockerfile_range_Inl [of E "format b" "SplitLines data" 0 False]
    by (auto simp: DockerfileValidator_Validate_def split: sum.splits if_splits)
next
  case (JupyterValidator b)
  with assms show ?thesis
    by (auto simp: JupyterValidator_Validate_def split: sum.splits if_splits)
next
  case (HCLValidator b)
  with assms show ?thesis by (auto simp: HCLValidator_Validate_def Let_def)
next
  case (GraphQLValidator b)
  with assms show ?thesis
    by (auto simp: GraphQLValidator_Validate_def Let_def errorString_def split: if_splits)
qed (use assms in \<open>auto simp: JSONValidator_Validate_def YAMLValidator_Validate_def XMLValidator_Validate_def
      TOMLValidator_Validate_def CSVValidator_Validate_def INIValidator_Validate_def
      ProtobufValidator_Validate_def MarkdownValidator_Validate_def Let_def errorString_def\<close>)

lemma Validate_snd: "snd (Validate E v data) = snd (Validate_method E v data)"
  by (simp add: Validate_def split: prod.splits)

lemma Validate_clean:
  "Valid (snd (Validate E v data)) \<Longrightarrow> Error (snd (Validate E v data)) = []"
  unfolding Validate_snd by (rule Validate_method_clean)

lemma ValidateAuto_clean:
  "Valid (snd (ValidateAuto E data)) \<Longrightarrow> Error (snd (ValidateAuto E data)) = []"
  by (auto simp: ValidateAuto_def Let_def Validate_clean split: sum.splits if_splits)

text \<open>
  C10. Every outcome of a validator's \<open>Validate\<close> or \<open>ValidateString\<close>, and of
  \<open>ValidateAuto\<close>, has an empty error whenever it is valid: the error is non-empty only
  when valid is false.
\<close>

theorem C10_error_only_when_invalid:
  "(Valid (snd (Validate E v data)) \<longrightarrow> Error (snd (Validate E v data)) = []) \<and>
   (Valid (snd (ValidateString E v data)) \<longrightarrow> Error (snd (ValidateString E v data)) = []) \<and>
   (Valid (snd (ValidateAuto E data)) \<longrightarrow> Error (snd (ValidateAuto E data)) = [])"
  by (simp add: ValidateString_def Validate_clean ValidateAuto_clean)

theorem C10_error_only_when_invalid_witness:
  "Valid (snd (Validate sampleCollaborators (HCLValidator \<lparr>format = FormatHCL\<rparr>) ''a = 1'')) \<and>
   Error (snd (Validate sampleCollaborators (HCLValidator \<lparr>format = FormatHCL\<rparr>) ''a = 1'')) = [] \<and>
   Valid (snd (ValidateString sampleCollaborators (HCLValidator \<lparr>format = FormatHCL\<rparr>) ''a = 1'')) \<and>
   Error (snd (ValidateString sampleCollaborators (HCLValidator \<lparr>format = FormatHCL\<rparr>) ''a = 1'')) = [] \<and>
   Valid (snd (ValidateAuto sampleCollaborators ''a = 1'')) \<and>
   Error (snd (ValidateAuto sampleCollaborators ''a = 1'')) = []"
proof -
  have a: "Valid (snd (Validate sampleCollaborators (HCLValidator \<lparr>format = FormatHCL\<rparr>) ''a = 1''))"
    by code_simp
  have b: "Valid (snd (ValidateString sampleCollaborators (HCLValidator \<lparr>format = FormatHCL\<rparr>) ''a = 1''))"
    by code_simp
  have c: "Valid (snd (ValidateAuto sampleCollaborators ''a = 1''))"
    by code_simp
  from a b c
    C10_error_only_when_invalid [of sampleCollaborators "HCLValidator \<lparr>format = FormatHCL\<rparr>" "''a = 1''"]
  show ?thesis by blast
qed

section \<open>The Dockerfile validator\<close>

lemma trailingSpace_TrimRightSpace: "trailingSpace (TrimRightSpace s) = 0"
proof (induction s rule: TrimRightSpace.induct)
  case (1 s)
  show ?case
  proof (cases "trailingSpace s = 0")
    case True
    then show ?thesis by (subst TrimRightSpace.simps) simp
  next
    case False
    with "1.IH" show ?thesis by (subst TrimRightSpace.simps) simp
  qed
qed

lemma trailingSpace_blank:
  assumes "s \<noteq> []" and "last s = CHR '' ''"
  shows "trailingSpace s \<noteq> 0"
proof -
  from assms have "suffix '' '' s"
    by (metis append_butlast_last_id suffixI)
  moreover have "'' '' \<in> set unicodeSpaces" by (simp add: unicodeSpaces_def)
  ultimately obtain e where e: "find (\<lambda>e. suffix e s) unicodeSpaces = Some e"
    by (cases "find (\<lambda>e. suffix e s) unicodeSpaces") (auto simp: find_None_iff)
  then have "e \<in> set unicodeSpaces" by (auto simp: find_Some_iff)
  then have "e \<noteq> []" by (auto simp: unicodeSpaces_def)
  with e show ?thesis by (simp add: trailingSpace_def)
qed

lemma TrimSpace_last: "TrimSpace s \<noteq> [] \<Longrightarrow> last (TrimSpace s) \<noteq> CHR '' ''"
  using trailingSpace_blank [of "TrimSpace s"] trailingSpace_TrimRightSpace [of "TrimLeftSpace s"]
  by (auto simp: TrimSpace_def)

lemma set_TrimLeftSpace: "set (TrimLeftSpace s) \<subseteq> set s"
proof (induction s rule: TrimLeftSpace.induct)
  case (1 s)
  show ?case
  proof (cases "leadingSpace s = 0")
    case True
    then show ?thesis by (subst TrimLeftSpace.simps) simp
  next
    case False
    with "1.IH" have "set (TrimLeftSpace (drop (leadingSpace s) s)) \<subseteq> set s"
      using set_drop_subset [of "leadingSpace s" s] by blast
    with False show ?thesis by (subst TrimLeftSpace.simps) simp
  qed
qed

lemma set_TrimRightSpace: "set (TrimRightSpace s) \<subseteq> set s"
proof (induction s rule: TrimRightSpace.induct)
  case (1 s)
  show ?case
  proof (cases "trailingSpace s = 0")
    case True
    then show ?thesis by (subst TrimRightSpace.simps) simp
  next
    case False
    with "1.IH" have "set (TrimRightSpace (take (length s - trailingSpace s) s)) \<subseteq> set s"
      using set_take_subset [of "length s - trailingSpace s" s] by blast
    with False show ?thesis by (subst TrimRightSpace.simps) simp
  qed
qed

lemma isASCII_TrimSpace: "isASCII s \<Longrightarrow> isASCII (TrimSpace s)"
  using set_TrimLeftSpace [of s] set_TrimRightSpace [of "TrimLeftSpace s"]
  by (auto simp: isASCII_def TrimSpace_def list_all_iff)

lemma upperByte_blank: "upperByte c = CHR '' '' \<longleftrightarrow> c = CHR '' ''"
proof (cases "(97::nat) \<le> of_char c \<and> (of_char c :: nat) \<le> 122")
  case True
  have "char_of (of_char c - (32::nat)) \<noteq> CHR '' ''"
  proof
    assume "char_of (of_char c - (32::nat)) = CHR '' ''"
    then have "(of_char (char_of (of_char c - (32::nat))) :: nat) = of_char (CHR '' '')" by simp
    then have "(of_char c - (32::nat)) mod 256 = 32" by simp
    with True show False by auto
  qed
  moreover from True have "c \<noteq> CHR '' ''" by auto
  ultimately show ?thesis using True by (simp add: upperByte_def)
next
  case False
  then show ?thesis by (auto simp: upperByte_def)
qed

lemma FROM_has_argument:
  assumes "isASCII l" and "prefix ''FROM '' (ToUpper U (TrimSpace l))"
  shows "\<exists>arg. arg \<noteq> [] \<and> ToUpper U (TrimSpace l) = ''FROM '' @ arg"
proof -
  let ?t = "TrimSpace l"
  from assms(1) have up: "ToUpper U ?t = map upperByte ?t"
    by (simp add: ToUpper_def isASCII_TrimSpace)
  from assms(2) obtain arg where arg: "ToUpper U ?t = ''FROM '' @ arg" by (auto simp: prefix_def)
  have "arg \<noteq> []"
  proof
    assume "arg = []"
    with arg up have m: "map upperByte ?t = ''FROM ''" by simp
    then have ne: "?t \<noteq> []" by auto
    from m have "last (map upperByte ?t) = CHR '' ''" by simp
    with ne have "upperByte (last ?t) = CHR '' ''" by (simp add: last_map)
    then have "last ?t = CHR '' ''" by (simp add: upperByte_blank)
    with TrimSpace_last [OF ne] show False by simp
  qed
  with arg show ?thesis by blast
qed

lemma Dockerfile_range_no_FROM:
  assumes "\<forall>l\<in>set ls. \<not> prefix ''FROM '' (ToUpper (unicode_MapUpper E) (TrimSpace l))"
  shows "Dockerfile_range E f ls i h = Inr True \<Longrightarrow> h"
proof (induction "length ls - i" arbitrary: i)
  case 0
  then have "length ls \<le> i" by simp
  with "0.prems" show ?case by (subst (asm) Dockerfile_range.simps) simp
next
  case (Suc n)
  then have lt: "i < length ls" and n: "n = length ls - (i + 1)" by simp_all
  from lt have "ls ! i \<in> set ls" by simp
  with assms have "\<not> HasPrefix (ToUpper (unicode_MapUpper E) (TrimSpace (ls ! i))) ''FROM ''"
    by (simp add: HasPrefix_def)
  with Suc.prems lt have "Dockerfile_range E f ls (i + 1) h = Inr True"
    by (subst (asm) Dockerfile_range.simps) (auto simp: Let_def split: if_splits)
  with Suc.hyps(1) [OF n] show ?case by blast
qed

lemma DockerfileValidator_no_FROM:
  assumes "\<forall>l\<in>set (SplitLines data). \<not> prefix ''FROM '' (ToUpper (unicode_MapUpper E) (TrimSpace l))"
  shows "\<not> Valid (snd (DockerfileValidator_Validate E b data))"
proof (cases "Dockerfile_range E (format b) (SplitLines data) 0 False")
  case (Inl r)
  then show ?thesis
    using Dockerfile_range_Inl [OF Inl] by (simp add: DockerfileValidator_Validate_def)
next
  case (Inr h)
  have "\<not> h"
  proof
    assume h
    with Inr Dockerfile_range_no_FROM [OF assms, of "format b" 0 False] show False by simp
  qed
  with Inr show ?thesis by (simp add: DockerfileValidator_Validate_def)
qed

text \<open>
  C7. When no line of the buffer, trimmed and upper-cased, begins with \<open>FROM\<close> and a
  space, the Dockerfile validator returns valid = false, whatever else the lines hold; the
  empty buffer is such a buffer. A trimmed line does not end with a space, so an ASCII line
  that begins with \<open>FROM\<close> and a space always has an argument after it.
\<close>

theorem C7_dockerfile_requires_FROM:
  assumes "\<forall>l\<in>set (SplitLines data). \<not> prefix ''FROM '' (ToUpper (unicode_MapUpper E) (TrimSpace l))"
  shows "\<not> Valid (snd (Validate E (DockerfileValidator b) data)) \<and>
         \<not> Valid (snd (ValidateString E (DockerfileValidator b) data)) \<and>
         (\<forall>l. isASCII l \<and> prefix ''FROM '' (ToUpper (unicode_MapUpper E) (TrimSpace l)) \<longrightarrow>
            (\<exists>arg. arg \<noteq> [] \<and> ToUpper (unicode_MapUpper E) (TrimSpace l) = ''FROM '' @ arg))"
  using DockerfileValidator_no_FROM [OF assms, of b] FROM_has_argument [of _ "unicode_MapUpper E"]
  by (simp add: ValidateString_def Validate_snd)

theorem C7_dockerfile_requires_FROM_witness:
  "list_all (\<lambda>l. \<not> prefix ''FROM '' (ToUpper (unicode_MapUpper sampleCollaborators) (TrimSpace l)))
     (SplitLines (''# build'' @ [CHR 0x0A] @ ''RUN make'' @ [CHR 0x0A])) \<and>
   \<not> Valid (snd (Validate sampleCollaborators (DockerfileValidator \<lparr>format = FormatDockerfile\<rparr>)
      (''# build'' @ [CHR 0x0A] @ ''RUN make'' @ [CHR 0x0A]))) \<and>
   list_all (\<lambda>l. \<not> prefix ''FROM '' (ToUpper (unicode_MapUpper sampleCollaborators) (TrimSpace l)))
     (SplitLines []) \<and>
   \<not> Valid (snd (Validate sampleCollaborators (DockerfileValidator \<lparr>format = FormatDockerfile\<rparr>) []))"
proof -
  define d where "d = ''# build'' @ [CHR 0x0A] @ ''RUN make'' @ [CHR 0x0A]"
  have a: "list_all (\<lambda>l. \<not> prefix ''FROM '' (ToUpper (unicode_MapUpper sampleCollaborators) (TrimSpace l)))
     (SplitLines d)"
    unfolding d_def by code_simp
  have b: "list_all (\<lambda>l. \<not> prefix ''FROM '' (ToUpper (unicode_MapUpper sampleCollaborators) (TrimSpace l)))
     (SplitLines [])"
    by code_simp
  from a have a': "\<forall>l\<in>set (SplitLines d).
      \<not> prefix ''FROM '' (ToUpper (unicode_MapUpper sampleCollaborators) (TrimSpace l))"
    by (simp add: list_all_iff)
  from b have b': "\<forall>l\<in>set (SplitLines []).
      \<not> prefix ''FROM '' (ToUpper (unicode_MapUpper sampleCollaborators) (TrimSpace l))"
    by (simp add: list_all_iff)
  from a b C7_dockerfile_requires_FROM [OF a', of "\<lparr>format = FormatDockerfile\<rparr>"]
    C7_dockerfile_requires_FROM [OF b', of "\<lparr>format = FormatDockerfile\<rparr>"]
  show ?thesis unfolding d_def by blast
qed


section \<open>The JSON Lines validator\<close>

lemma JSONL_range_invalid_iff:
  "\<not> Valid (snd (JSONL_range E f i ls)) \<longleftrightarrow>
     (\<exists>l\<in>set ls. TrimSpace l \<noteq> [] \<and> json_Unmarshal E (TrimSpace l) \<noteq> None)"
proof (induction ls arbitrary: i)
  case Nil
  show ?case by simp
next
  case (Cons a ls)
  show ?case using Cons.IH [of "i + 1"]
    by (auto simp: Let_def split: option.splits prod.splits)
qed

lemma JSONL_range_first_failure:
  assumes "k < length ls"
    and "TrimSpace (ls ! k) \<noteq> []"
    and "json_Unmarshal E (TrimSpace (ls ! k)) = Some err"
    and "\<forall>j<k. TrimSpace (ls ! j) = [] \<or> json_Unmarshal E (TrimSpace (ls ! j)) = None"
  shows "snd (JSONL_range E f i ls) =
           mkResult False f (''invalid JSON on line '' @ decimal (i + k + 1) @ '': '' @ err)"
  using assms
proof (induction ls arbitrary: i k)
  case Nil
  then show ?case by simp
next
  case (Cons a ls)
  show ?case
  proof (cases k)
    case 0
    with Cons.prems show ?thesis by (simp add: Let_def)
  next
    case (Suc k')
    from Cons.prems(4) Suc have head: "TrimSpace a = [] \<or> json_Unmarshal E (TrimSpace a) = None"
      by auto
    have rest: "\<forall>j<k'. TrimSpace (ls ! j) = [] \<or> json_Unmarshal E (TrimSpace (ls ! j)) = None"
      using Cons.prems(4) Suc by auto
    have "snd (JSONL_range E f (i + 1) ls) =
           mkResult False f (''invalid JSON on line '' @ decimal (i + 1 + k' + 1) @ '': '' @ err)"
      using Cons.prems(1-3) Suc rest by (intro Cons.IH) auto
    with head Suc show ?thesis
      by (auto simp: Let_def split: option.splits prod.splits)
  qed
qed

lemma JSONL_range_calls:
  "\<forall>c\<in>set (fst (JSONL_range E f i ls)).
     \<exists>l\<in>set ls. TrimSpace l \<noteq> [] \<and> c = Call_json_Unmarshal (TrimSpace l)"
proof (induction ls arbitrary: i)
  case Nil
  show ?case by simp
next
  case (Cons a ls)
  show ?case using Cons.IH [of "i + 1"]
    by (auto simp: Let_def split: option.splits prod.splits)
qed

lemma JSONL_range_Format: "Format (snd (JSONL_range E f i ls)) = f"
proof (induction ls arbitrary: i)
  case Nil
  show ?case by simp
next
  case (Cons a ls)
  show ?case using Cons.IH [of "i + 1"]
    by (auto simp: Let_def split: option.splits prod.splits)
qed

lemma JSONLValidator_Validate_eq:
  "snd (JSONLValidator_Validate E b data) = snd (JSONL_range E (format b) 0 (SplitLines data))"
  by (simp add: JSONLValidator_Validate_def Let_def TrimSpace_Nil)

lemma digit_code: "n < 10 \<Longrightarrow> (of_char (''0123456789'' ! n) :: nat) = 48 + n"
  by (auto simp: less_Suc_eq numeral_eq_Suc nth_Cons')


lemma decimalValue_decimal: "decimalValue (decimal n) = n"
proof (induction n rule: decimal.induct)
  case (1 n)
  show ?case
  proof (cases "n < 10")
    case True
    then show ?thesis
      by (subst decimal.simps) (simp add: decimalValue_def digit_code)
  next
    case False
    with "1.IH" have "decimalValue (decimal (n div 10)) = n div 10" by simp
    moreover have "n mod 10 < 10" by simp
    ultimately show ?thesis using False
      by (subst decimal.simps) (simp add: decimalValue_def digit_code)
  qed
qed

text \<open>
  C8, as the code has it. The JSON Lines validator splits the buffer at line feeds and
  hands to the JSON decoder only the lines that are not blank, each trimmed of its leading
  and trailing white space first. It returns valid = false exactly when the decoder rejects
  one of these trimmed lines. The outcome then carries the message
  "invalid JSON on line N: " followed by the decoder's error, where N is the 1-based
  position, among all lines of the split, of the first rejected line, written in decimal.
  Blank lines never make it fail.
\<close>

theorem C8_jsonl_validator:
  fixes E :: collaborators and b :: baseValidator and data :: string
  defines "lines \<equiv> SplitLines data"
  defines "r \<equiv> snd (Validate E (JSONLValidator b) data)"
  defines "calls \<equiv> fst (Validate E (JSONLValidator b) data)"
  shows "(\<not> Valid r \<longleftrightarrow> (\<exists>l\<in>set lines. TrimSpace l \<noteq> [] \<and> json_Unmarshal E (TrimSpace l) \<noteq> None)) \<and>
         (\<forall>k err. k < length lines \<and> TrimSpace (lines ! k) \<noteq> [] \<and>
             json_Unmarshal E (TrimSpace (lines ! k)) = Some err \<and>
             (\<forall>j<k. TrimSpace (lines ! j) = [] \<or> json_Unmarshal E (TrimSpace (lines ! j)) = None) \<longrightarrow>
             r = \<lparr>Valid = False, Format = format b,
                  Error = ''invalid JSON on line '' @ decimal (k + 1) @ '': '' @ err, FileName = []\<rparr>) \<and>
         ((\<forall>l\<in>set lines. TrimSpace l = []) \<longrightarrow> Valid r) \<and>
         (\<forall>c\<in>set (tl calls). \<exists>l\<in>set lines. TrimSpace l \<noteq> [] \<and> c = Call_json_Unmarshal (TrimSpace l)) \<and>
         (\<forall>k. decimalValue (decimal (k + 1)) = k + 1)"
proof -
  have r: "r = snd (JSONL_range E (format b) 0 lines)"
    by (simp add: r_def lines_def Validate_snd JSONLValidator_Validate_eq)
  have first: "\<not> Valid r \<longleftrightarrow> (\<exists>l\<in>set lines. TrimSpace l \<noteq> [] \<and> json_Unmarshal E (TrimSpace l) \<noteq> None)"
    unfolding r by (rule JSONL_range_invalid_iff)
  have second: "r = \<lparr>Valid = False, Format = format b,
                  Error = ''invalid JSON on line '' @ decimal (k + 1) @ '': '' @ err, FileName = []\<rparr>"
    if "k < length lines" "TrimSpace (lines ! k) \<noteq> []"
       "json_Unmarshal E (TrimSpace (lines ! k)) = Some err"
       "\<forall>j<k. TrimSpace (lines ! j) = [] \<or> json_Unmarshal E (TrimSpace (lines ! j)) = None"
    for k err
    using JSONL_range_first_failure [OF that, of "format b" 0] by (simp add: r mkResult_def)
  have third: "Valid r" if "\<forall>l\<in>set lines. TrimSpace l = []"
    using first that by blast
  have "tl calls = fst (JSONLValidator_Validate E b data)"
    by (simp add: calls_def Validate_def split: prod.splits)
  then have fourth: "\<forall>c\<in>set (tl calls). \<exists>l\<in>set lines. TrimSpace l \<noteq> [] \<and> c = Call_json_Unmarshal (TrimSpace l)"
    using JSONL_range_calls [of E "format b" 0 lines]
    by (simp add: JSONLValidator_Validate_def lines_def)
  have fifth: "\<forall>k. decimalValue (decimal (k + 1)) = k + 1"
    by (simp add: decimalValue_decimal)
  from first second third fourth fifth show ?thesis by blast
qed


theorem C8_jsonl_validator_witness:
  "\<not> Valid (snd (Validate sampleCollaborators (JSONLValidator \<lparr>format = FormatJSONL\<rparr>)
       (''{}'' @ [CHR 0x0A, CHR 0x0A] @ ''oops'' @ [CHR 0x0A] @ ''nope''))) \<and>
   snd (Validate sampleCollaborators (JSONLValidator \<lparr>format = FormatJSONL\<rparr>)
       (''{}'' @ [CHR 0x0A, CHR 0x0A] @ ''oops'' @ [CHR 0x0A] @ ''nope'')) =
     \<lparr>Valid = False, Format = FormatJSONL, Error = ''invalid JSON on line 3: invalid character'',
      FileName = []\<rparr> \<and>
   Valid (snd (Validate sampleCollaborators (JSONLValidator \<lparr>format = FormatJSONL\<rparr>)
       (''{}'' @ [CHR 0x0A, CHR 0x0A] @ '' [1]'')))"
proof -
  define d where "d = ''{}'' @ [CHR 0x0A, CHR 0x0A] @ ''oops'' @ [CHR 0x0A] @ ''nope''"
  define e where "e = ''{}'' @ [CHR 0x0A, CHR 0x0A] @ '' [1]''"
  define v where "v = \<lparr>format = FormatJSONL\<rparr>"
  have ld: "SplitLines d = [''{}'', [], ''oops'', ''nope'']" unfolding d_def by code_simp
  have le: "SplitLines e = [''{}'', [], '' [1]'']" unfolding e_def by code_simp
  have t: "TrimSpace ''{}'' = ''{}''" "TrimSpace [] = []" "TrimSpace ''oops'' = ''oops''"
    "TrimSpace '' [1]'' = ''[1]''"
    by code_simp+
  have j: "json_Unmarshal sampleCollaborators ''{}'' = None"
    "json_Unmarshal sampleCollaborators ''[1]'' = None"
    "json_Unmarshal sampleCollaborators ''oops'' = Some ''invalid character''"
    by code_simp+
  have dec: "decimal (2 + 1) = ''3''" by code_simp
  have fmt: "format v = FormatJSONL" by (simp add: v_def)
  note C8 = C8_jsonl_validator [of sampleCollaborators v d]
  have k: "(2::nat) < length (SplitLines d) \<and> TrimSpace (SplitLines d ! 2) \<noteq> [] \<and>
      json_Unmarshal sampleCollaborators (TrimSpace (SplitLines d ! 2)) = Some ''invalid character'' \<and>
      (\<forall>j<2. TrimSpace (SplitLines d ! j) = [] \<or>
             json_Unmarshal sampleCollaborators (TrimSpace (SplitLines d ! j)) = None)"
    by (simp add: ld t j less_Suc_eq numeral_2_eq_2)
  have a: "snd (Validate sampleCollaborators (JSONLValidator v) d) =
     \<lparr>Valid = False, Format = FormatJSONL, Error = ''invalid JSON on line 3: invalid character'',
      FileName = []\<rparr>"
    using C8 k dec fmt by (metis append_Cons append_Nil)
  then have b: "\<not> Valid (snd (Validate sampleCollaborators (JSONLValidator v) d))" by simp
  have "\<forall>l\<in>set (SplitLines e). \<not> (TrimSpace l \<noteq> [] \<and> json_Unmarshal sampleCollaborators (TrimSpace l) \<noteq> None)"
    by (simp add: le t j)
  with C8_jsonl_validator [of sampleCollaborators v e]
  have c: "Valid (snd (Validate sampleCollaborators (JSONLValidator v) e))" by blast
  from a b c show ?thesis unfolding d_def e_def v_def by blast
qed


text \<open>
  Without the trimming the statement fails. The first line below is a form feed followed
  by \<open>{}\<close>: it is not blank, and as it stands it does not parse as JSON, since a form
  feed is not JSON white space. The validator trims the form feed away before parsing and
  answers valid.
\<close>

theorem C8_untrimmed_line_counterexample:
  "SplitLines ([CHR 0x0C] @ ''{}'' @ [CHR 0x0A] @ ''{}'') = [[CHR 0x0C] @ ''{}'', ''{}''] \<and>
   TrimSpace ([CHR 0x0C] @ ''{}'') \<noteq> [] \<and>
   json_Unmarshal jsonSpaceCollaborators ([CHR 0x0C] @ ''{}'') =
     Some ''invalid character looking for beginning of value'' \<and>
   Valid (snd (Validate jsonSpaceCollaborators (JSONLValidator \<lparr>format = FormatJSONL\<rparr>)
     ([CHR 0x0C] @ ''{}'' @ [CHR 0x0A] @ ''{}''))) \<and>
   snd (Validate jsonSpaceCollaborators (JSONLValidator \<lparr>format = FormatJSONL\<rparr>)
     ([CHR 0x0C] @ ''{}'' @ [CHR 0x0A] @ ''{}'')) =
     \<lparr>Valid = True, Format = FormatJSONL, Error = [], FileName = []\<rparr>"
  by code_simp

section \<open>The file-name detector against its rule\<close>

lemma LastIndexByte_Nil: "LastIndexByte [] c = -1"
  by (simp add: LastIndexByte_def)

lemma LastIndexByte_snoc:
  "LastIndexByte (xs @ [x]) c = (if x = c then int (length xs) else LastIndexByte xs c)"
proof -
  have "filter (\<lambda>i. (xs @ [x]) ! i = c) (rev [0..<length xs]) =
        filter (\<lambda>i. xs ! i = c) (rev [0..<length xs])"
    by (rule filter_cong) (auto simp: nth_append)
  then show ?thesis by (simp add: LastIndexByte_def)
qed

lemma LastIndexByte_bounds: "-1 \<le> LastIndexByte s c \<and> LastIndexByte s c < int (length s)"
  by (induction s rule: rev_induct) (auto simp: LastIndexByte_Nil LastIndexByte_snoc)

lemma LastIndexByte_absent: "LastIndexByte s c = -1 \<longleftrightarrow> c \<notin> set s"
  by (induction s rule: rev_induct) (auto simp: LastIndexByte_Nil LastIndexByte_snoc)

lemma LastIndexByte_nth:
  "c \<in> set s \<Longrightarrow> 0 \<le> LastIndexByte s c \<and> s ! nat (LastIndexByte s c) = c"
proof (induction s rule: rev_induct)
  case Nil
  then show ?case by simp
next
  case (snoc x xs)
  show ?case
  proof (cases "x = c")
    case True
    then show ?thesis by (simp add: LastIndexByte_snoc)
  next
    case False
    with snoc.prems have "c \<in> set xs" by simp
    with snoc.IH have ih: "0 \<le> LastIndexByte xs c" "xs ! nat (LastIndexByte xs c) = c" by simp_all
    moreover have "nat (LastIndexByte xs c) < length xs"
      using LastIndexByte_bounds [of xs c] ih(1) by linarith
    ultimately show ?thesis using False by (simp add: LastIndexByte_snoc nth_append)
  qed
qed

lemma sliceFrom_after_last:
  "sliceFrom s (LastIndexByte s c + 1) = rev (takeWhile (\<lambda>x. x \<noteq> c) (rev s))"
proof (induction s rule: rev_induct)
  case Nil
  show ?case by (simp add: sliceFrom_def)
next
  case (snoc x xs)
  show ?case
  proof (cases "x = c")
    case True
    then show ?thesis by (simp add: LastIndexByte_snoc sliceFrom_def)
  next
    case False
    have "nat (LastIndexByte xs c + 1) \<le> length xs"
      using LastIndexByte_bounds [of xs c] by linarith
    with False snoc.IH show ?thesis
      by (simp add: LastIndexByte_snoc sliceFrom_def)
  qed
qed

lemma sliceFrom_at_last:
  assumes "c \<in> set s"
  shows "TrimPrefix (sliceFrom s (LastIndexByte s c)) [c] = rev (takeWhile (\<lambda>x. x \<noteq> c) (rev s))"
proof -
  let ?k = "nat (LastIndexByte s c)"
  from LastIndexByte_nth [OF assms] have nonneg: "0 \<le> LastIndexByte s c" and at: "s ! ?k = c"
    by simp_all
  have lt: "?k < length s" using LastIndexByte_bounds [of s c] nonneg by linarith
  have "sliceFrom s (LastIndexByte s c) = s ! ?k # drop (Suc ?k) s"
    using lt by (simp add: sliceFrom_def Cons_nth_drop_Suc)
  also have "drop (Suc ?k) s = sliceFrom s (LastIndexByte s c + 1)"
    using nonneg by (simp add: sliceFrom_def nat_add_distrib)
  finally have "sliceFrom s (LastIndexByte s c) = c # sliceFrom s (LastIndexByte s c + 1)"
    using at by simp
  then show ?thesis
    by (simp add: TrimPrefix_def HasPrefix_def sliceFrom_after_last)
qed

text \<open>
  C9. \<open>DetectFormatFromFilename\<close> computes the file-name rule in its order: Dockerfile when
  the lower-cased last path segment is \<open>dockerfile\<close> or starts with \<open>dockerfile.\<close>;
  otherwise unknown when the name has no dot; otherwise the requirements list when the
  lower-cased text after the last dot is \<open>txt\<close> and the lower-cased name contains
  \<open>requirements\<close>; otherwise the entry of the extension table, unknown on a miss.
\<close>

theorem C9_filename_detection:
  "DetectFormatFromFilename E filename = filenameRule E filename"
proof -
  have seg: "sliceFrom filename (LastIndexByte filename (CHR ''/'') + 1) = lastPathSegment filename"
    by (simp add: sliceFrom_after_last lastPathSegment_def)
  show ?thesis
  proof (cases "CHR ''.'' \<in> set filename")
    case True
    then have "LastIndexByte filename (CHR ''.'') \<noteq> -1" by (simp add: LastIndexByte_absent)
    moreover have "TrimPrefix (sliceFrom filename (LastIndexByte filename (CHR ''.''))) ''.'' =
        afterLastDot filename"
      using sliceFrom_at_last [OF True] by (simp add: afterLastDot_def)
    ultimately show ?thesis using True
      by (simp add: DetectFormatFromFilename_def filenameRule_def Let_def seg HasPrefix_def
          Contains_iff_sublist)
  next
    case False
    then have "LastIndexByte filename (CHR ''.'') = -1" by (simp add: LastIndexByte_absent)
    with False show ?thesis
      by (simp add: DetectFormatFromFilename_def filenameRule_def Let_def seg HasPrefix_def)
  qed
qed

theorem C9_filename_detection_witness:
  "DetectFormatFromFilename sampleCollaborators ''build/Dockerfile.prod'' = FormatDockerfile \<and>
   DetectFormatFromFilename sampleCollaborators ''requirements-dev.txt'' = FormatRequirements \<and>
   DetectFormatFromFilename sampleCollaborators ''x.unknownext'' = FormatUnknown \<and>
   DetectFormatFromFilename sampleCollaborators ''notes.txt'' = FormatUnknown \<and>
   DetectFormatFromFilename sampleCollaborators ''README'' = FormatUnknown \<and>
   DetectFormatFromFilename sampleCollaborators ''conf.d/App.YML'' = FormatYAML"
proof -
  have "filenameRule sampleCollaborators ''build/Dockerfile.prod'' = FormatDockerfile"
    "filenameRule sampleCollaborators ''requirements-dev.txt'' = FormatRequirements"
    "filenameRule sampleCollaborators ''x.unknownext'' = FormatUnknown"
    "filenameRule sampleCollaborators ''notes.txt'' = FormatUnknown"
    "filenameRule sampleCollaborators ''README'' = FormatUnknown"
    "filenameRule sampleCollaborators ''conf.d/App.YML'' = FormatYAML"
    by code_simp+
  then show ?thesis
    using C9_filename_detection [of sampleCollaborators] by simp
qed


section \<open>Validators that pass the parser's verdict through\<close>

lemma NewValidator_passthrough_tags:
  "NewValidator FormatJSON = Inr (JSONValidator \<lparr>format = FormatJSON\<rparr>)"
  "NewValidator FormatYAML = Inr (YAMLValidator \<lparr>format = FormatYAML\<rparr>)"
  "NewValidator FormatXML = Inr (XMLValidator \<lparr>format = FormatXML\<rparr>)"
  "NewValidator FormatTOML = Inr (TOMLValidator \<lparr>format = FormatTOML\<rparr>)"
  "NewValidator FormatCSV = Inr (CSVValidator \<lparr>format = FormatCSV\<rparr>)"
  "NewValidator FormatGraphQL = Inr (GraphQLValidator \<lparr>format = FormatGraphQL\<rparr>)"
  "NewValidator FormatINI = Inr (INIValidator \<lparr>format = FormatINI\<rparr>)"
  "NewValidator FormatHCL = Inr (HCLValidator \<lparr>format = FormatHCL\<rparr>)"
  "NewValidator FormatProtobuf = Inr (ProtobufValidator \<lparr>format = FormatProtobuf\<rparr>)"
  "NewValidator FormatMarkdown = Inr (MarkdownValidator \<lparr>format = FormatMarkdown\<rparr>)"
  by (simp_all add: NewValidator_def validatorMap_def Format_defs)

lemma errorString_case: "errorString err = (case err of None \<Rightarrow> [] | Some msg \<Rightarrow> msg)"
  by (simp add: errorString_def)

lemma passthrough_JSON:
  "Validate E (JSONValidator \<lparr>format = FormatJSON\<rparr>) data =
     ([Call_Validate (JSONValidator \<lparr>format = FormatJSON\<rparr>) data, Call_json_Unmarshal data],
      mkResult (json_Unmarshal E data = None) FormatJSON (errorString (json_Unmarshal E data)))"
  by (simp add: Validate_def JSONValidator_Validate_def Let_def)

lemma passthrough_YAML:
  "Validate E (YAMLValidator \<lparr>format = FormatYAML\<rparr>) data =
     ([Call_Validate (YAMLValidator \<lparr>format = FormatYAML\<rparr>) data, Call_yaml_Unmarshal data],
      mkResult (yaml_Unmarshal E data = None) FormatYAML (errorString (yaml_Unmarshal E data)))"
  by (simp add: Validate_def YAMLValidator_Validate_def Let_def)

lemma passthrough_XML:
  "Validate E (XMLValidator \<lparr>format = FormatXML\<rparr>) data =
     ([Call_Validate (XMLValidator \<lparr>format = FormatXML\<rparr>) data, Call_xml_Unmarshal data],
      mkResult (xml_Unmarshal E data = None) FormatXML (errorString (xml_Unmarshal E data)))"
  by (simp add: Validate_def XMLValidator_Validate_def Let_def)

lemma passthrough_TOML:
  "Validate E (TOMLValidator \<lparr>format = FormatTOML\<rparr>) data =
     ([Call_Validate (TOMLValidator \<lparr>format = FormatTOML\<rparr>) data, Call_toml_Unmarshal data],
      mkResult (toml_Unmarshal E data = None) FormatTOML (errorString (toml_Unmarshal E data)))"
  by (simp add: Validate_def TOMLValidator_Validate_def Let_def)

lemma passthrough_CSV:
  "Validate E (CSVValidator \<lparr>format = FormatCSV\<rparr>) data =
     ([Call_Validate (CSVValidator \<lparr>format = FormatCSV\<rparr>) data, Call_csv_ReadAll data],
      mkResult (csv_ReadAll E data = None) FormatCSV (errorString (csv_ReadAll E data)))"
  by (simp add: Validate_def CSVValidator_Validate_def Let_def)

lemma passthrough_GraphQL:
  "data \<noteq> [] \<Longrightarrow>
   Validate E (GraphQLValidator \<lparr>format = FormatGraphQL\<rparr>) data =
     ([Call_Validate (GraphQLValidator \<lparr>format = FormatGraphQL\<rparr>) data, Call_graphql_Parse data],
      mkResult (graphql_Parse E data = None) FormatGraphQL (errorString (graphql_Parse E data)))"
  by (simp add: Validate_def GraphQLValidator_Validate_def Let_def)

lemma GraphQL_empty:
  "Validate E (GraphQLValidator \<lparr>format = FormatGraphQL\<rparr>) [] =
     ([Call_Validate (GraphQLValidator \<lparr>format = FormatGraphQL\<rparr>) []],
      mkResult False FormatGraphQL ''empty GraphQL content'')"
  by (simp add: Validate_def GraphQLValidator_Validate_def)

lemma passthrough_INI:
  "Validate E (INIValidator \<lparr>format = FormatINI\<rparr>) data =
     ([Call_Validate (INIValidator \<lparr>format = FormatINI\<rparr>) data, Call_ini_Load data],
      mkResult (ini_Load E data = None) FormatINI (errorString (ini_Load E data)))"
  by (simp add: Validate_def INIValidator_Validate_def Let_def)

lemma passthrough_HCL:
  "Validate E (HCLValidator \<lparr>format = FormatHCL\<rparr>) data =
     ([Call_Validate (HCLValidator \<lparr>format = FormatHCL\<rparr>) data, Call_hclsyntax_ParseConfig data],
      mkResult (\<not> HasErrors (hclsyntax_ParseConfig E data)) FormatHCL
        (if HasErrors (hclsyntax_ParseConfig E data)
         then DiagnosticsError (hclsyntax_ParseConfig E data) else []))"
  by (simp add: Validate_def HCLValidator_Validate_def Let_def)

lemma passthrough_Protobuf:
  "Validate E (ProtobufValidator \<lparr>format = FormatProtobuf\<rparr>) data =
     ([Call_Validate (ProtobufValidator \<lparr>format = FormatProtobuf\<rparr>) data, Call_prototext_Unmarshal data],
      mkResult (prototext_Unmarshal E data = None) FormatProtobuf (errorString (prototext_Unmarshal E data)))"
  by (simp add: Validate_def ProtobufValidator_Validate_def Let_def)

lemma passthrough_Markdown:
  "Validate E (MarkdownValidator \<lparr>format = FormatMarkdown\<rparr>) data =
     ([Call_Validate (MarkdownValidator \<lparr>format = FormatMarkdown\<rparr>) data, Call_goldmark_Convert data],
      mkResult (goldmark_Convert E data = None) FormatMarkdown (errorString (goldmark_Convert E data)))"
  by (simp add: Validate_def MarkdownValidator_Validate_def Let_def)

lemma externalParser_tags:
  "externalParser E FormatJSON data = Some (Call_json_Unmarshal data, json_Unmarshal E data)"
  "externalParser E FormatYAML data = Some (Call_yaml_Unmarshal data, yaml_Unmarshal E data)"
  "externalParser E FormatXML data = Some (Call_xml_Unmarshal data, xml_Unmarshal E data)"
  "externalParser E FormatTOML data = Some (Call_toml_Unmarshal data, toml_Unmarshal E data)"
  "externalParser E FormatCSV data = Some (Call_csv_ReadAll data, csv_ReadAll E data)"
  "externalParser E FormatGraphQL data = Some (Call_graphql_Parse data, graphql_Parse E data)"
  "externalParser E FormatINI data = Some (Call_ini_Load data, ini_Load E data)"
  "externalParser E FormatHCL data =
     Some (Call_hclsyntax_ParseConfig data,
           if HasErrors (hclsyntax_ParseConfig E data)
           then Some (DiagnosticsError (hclsyntax_ParseConfig E data)) else None)"
  "externalParser E FormatProtobuf data = Some (Call_prototext_Unmarshal data, prototext_Unmarshal E data)"
  "externalParser E FormatMarkdown data = Some (Call_goldmark_Convert data, goldmark_Convert E data)"
  by (simp_all add: externalParser_def Format_defs)

text \<open>
  C4, as the code has it. For each of the ten tags other than Jupyter, JSON Lines,
  Requirements and Dockerfile, and every buffer except the empty buffer for GraphQL, the
  tag's validator invokes its external parser once on the buffer, is valid exactly when
  the parser reports no error, and carries the parser's own message as its error. On the
  empty buffer the GraphQL validator does not invoke its parser: it returns valid = false
  with its own message "empty GraphQL content".
\<close>

theorem C4_parser_passthrough:
  "(fmt \<in> set registeredFormats \<and>
    fmt \<notin> {FormatJupyter, FormatJSONL, FormatRequirements, FormatDockerfile} \<and>
    \<not> (fmt = FormatGraphQL \<and> data = []) \<longrightarrow>
      (\<exists>v c err. NewValidator fmt = Inr v \<and> externalParser E fmt data = Some (c, err) \<and>
         Validate E v data =
           ([Call_Validate v data, c],
            \<lparr>Valid = (err = None), Format = fmt,
             Error = (case err of None \<Rightarrow> [] | Some msg \<Rightarrow> msg), FileName = []\<rparr>))) \<and>
   (\<exists>v. NewValidator FormatGraphQL = Inr v \<and>
      Validate E v [] =
        ([Call_Validate v []],
         \<lparr>Valid = False, Format = FormatGraphQL, Error = ''empty GraphQL content'', FileName = []\<rparr>))"
proof -
  have main: "\<exists>v c err. NewValidator fmt = Inr v \<and> externalParser E fmt data = Some (c, err) \<and>
         Validate E v data =
           ([Call_Validate v data, c],
            \<lparr>Valid = (err = None), Format = fmt,
             Error = (case err of None \<Rightarrow> [] | Some msg \<Rightarrow> msg), FileName = []\<rparr>)"
    if mem: "fmt \<in> set registeredFormats"
      and own: "fmt \<notin> {FormatJupyter, FormatJSONL, FormatRequirements, FormatDockerfile}"
      and ne: "\<not> (fmt = FormatGraphQL \<and> data = [])"
  proof -
    from mem own consider
      "fmt = FormatJSON" | "fmt = FormatYAML" | "fmt = FormatXML" | "fmt = FormatTOML" |
      "fmt = FormatCSV" | "fmt = FormatGraphQL" | "fmt = FormatINI" | "fmt = FormatHCL" |
      "fmt = FormatProtobuf" | "fmt = FormatMarkdown"
      by (auto simp: registeredFormats_eq)
    then show ?thesis
    proof cases
      case 1
      then show ?thesis
        by (simp add: NewValidator_passthrough_tags externalParser_tags passthrough_JSON
            mkResult_def errorString_case)
    next
      case 2
      then show ?thesis
        by (simp add: NewValidator_passthrough_tags externalParser_tags passthrough_YAML
            mkResult_def errorString_case)
    next
      case 3
      then show ?thesis
        by (simp add: NewValidator_passthrough_tags externalParser_tags passthrough_XML
            mkResult_def errorString_case)
    next
      case 4
      then show ?thesis
        by (simp add: NewValidator_passthrough_tags externalParser_tags passthrough_TOML
            mkResult_def errorString_case)
    next
      case 5
      then show ?thesis
        by (simp add: NewValidator_passthrough_tags externalParser_tags passthrough_CSV
            mkResult_def errorString_case)
    next
      case 6
      with ne have "data \<noteq> []" by simp
      with 6 show ?thesis
        by (simp add: NewValidator_passthrough_tags externalParser_tags passthrough_GraphQL
            mkResult_def errorString_case)
    next
      case 7
      then show ?thesis
        by (simp add: NewValidator_passthrough_tags externalParser_tags passthrough_INI
            mkResult_def errorString_case)
    next
      case 8
      then show ?thesis
        by (simp add: NewValidator_passthrough_tags externalParser_tags passthrough_HCL
            mkResult_def)
    next
      case 9
      then show ?thesis
        by (simp add: NewValidator_passthrough_tags externalParser_tags passthrough_Protobuf
            mkResult_def errorString_case)
    next
      case 10
      then show ?thesis
        by (simp add: NewValidator_passthrough_tags externalParser_tags passthrough_Markdown
            mkResult_def errorString_case)
    qed
  qed
  have empty: "\<exists>v. NewValidator FormatGraphQL = Inr v \<and>
      Validate E v [] =
        ([Call_Validate v []],
         \<lparr>Valid = False, Format = FormatGraphQL, Error = ''empty GraphQL content'', FileName = []\<rparr>)"
    by (simp add: NewValidator_passthrough_tags GraphQL_empty mkResult_def)
  from main empty show ?thesis by blast
qed

theorem C4_parser_passthrough_witness:
  "FormatGraphQL \<in> set registeredFormats \<and>
   FormatGraphQL \<notin> {FormatJupyter, FormatJSONL, FormatRequirements, FormatDockerfile} \<and>
   \<not> (FormatGraphQL = FormatGraphQL \<and> ''{ me }'' = []) \<and>
   Validate sampleCollaborators (GraphQLValidator \<lparr>format = FormatGraphQL\<rparr>) ''{ me }'' =
     ([Call_Validate (GraphQLValidator \<lparr>format = FormatGraphQL\<rparr>) ''{ me }'', Call_graphql_Parse ''{ me }''],
      \<lparr>Valid = False, Format = FormatGraphQL, Error = ''Syntax Error'', FileName = []\<rparr>) \<and>
   Validate sampleCollaborators (GraphQLValidator \<lparr>format = FormatGraphQL\<rparr>) [] =
     ([Call_Validate (GraphQLValidator \<lparr>format = FormatGraphQL\<rparr>) []],
      \<lparr>Valid = False, Format = FormatGraphQL, Error = ''empty GraphQL content'', FileName = []\<rparr>)"
proof -
  have a: "FormatGraphQL \<in> set registeredFormats" by code_simp
  have b: "FormatGraphQL \<notin> {FormatJupyter, FormatJSONL, FormatRequirements, FormatDockerfile}"
    by code_simp
  have c: "\<not> (FormatGraphQL = FormatGraphQL \<and> ''{ me }'' = [])" by simp
  have n: "NewValidator FormatGraphQL = Inr (GraphQLValidator \<lparr>format = FormatGraphQL\<rparr>)"
    by code_simp
  have p: "externalParser sampleCollaborators FormatGraphQL ''{ me }'' =
      Some (Call_graphql_Parse ''{ me }'', Some ''Syntax Error'')"
    by code_simp
  from a b c n p C4_parser_passthrough [of FormatGraphQL "''{ me }''" sampleCollaborators]
  show ?thesis by auto
qed

text \<open>
  The statement without the exception fails on the empty buffer: the GraphQL validator
  answers with a message that is not the parser's, and the parser is not among its calls.
\<close>

theorem C4_graphql_empty_counterexample:
  "NewValidator FormatGraphQL = Inr (GraphQLValidator \<lparr>format = FormatGraphQL\<rparr>) \<and>
   graphql_Parse sampleCollaborators [] = Some ''Syntax Error'' \<and>
   \<not> Valid (snd (Validate sampleCollaborators (GraphQLValidator \<lparr>format = FormatGraphQL\<rparr>) [])) \<and>
   Error (snd (Validate sampleCollaborators (GraphQLValidator \<lparr>format = FormatGraphQL\<rparr>) [])) =
     ''empty GraphQL content'' \<and>
   Error (snd (Validate sampleCollaborators (GraphQLValidator \<lparr>format = FormatGraphQL\<rparr>) [])) \<noteq>
     ''Syntax Error'' \<and>
   Call_graphql_Parse [] \<notin>
     set (fst (Validate sampleCollaborators (GraphQLValidator \<lparr>format = FormatGraphQL\<rparr>) []))"
  by (simp add: NewValidator_passthrough_tags GraphQL_empty sampleCollaborators_def)

end
